theory Spec2Isabelle
  imports Main "HOL-Library.Sublist"
begin

section \<open>Data model (src/lib/types/powerbrief.ts)\<close>

text \<open>
  The share feature of the briefing tool: \<open>shareBriefBatch\<close> and \<open>shareBriefConcept\<close>
  (the issuer, in \<open>src/lib/types/powerbrief.ts\<close>) and the two public pages
  \<open>SharedBriefPage\<close> and \<open>SharedConceptPage\<close> (the resolver).

  A settings object is stored as JSON and read back untyped (\<open>Record<string, any>\<close>), so
  every field is an option: \<open>None\<close> is a key that is absent or \<open>null\<close>. The pages only
  test such a field for truthiness, which does not tell the two apart. The fields
  \<open>created_at\<close> and \<open>share_type\<close> are the ones the issuer adds to the caller's settings.
\<close>

datatype share_type = Link | Email

record ShareSettings =
  is_editable :: "bool option"
  expires_at :: "string option"
  email :: "string option"
  created_at :: "string option"
  share_type :: "share_type option"

record ShareResult =
  share_id :: string
  share_url :: string

text \<open>
  The two owning entities share the columns \<open>id\<close> (here \<open>row_id\<close>) and \<open>share_settings\<close>, a
  nullable JSON map from share identifier to settings. Of the business columns the model
  keeps those the share code reads; the others are carried along unchanged by every
  operation below.
\<close>

record owner_row =
  row_id :: string
  share_settings :: "(string \<rightharpoonup> ShareSettings) option"

record Brand =
  brand_row_id :: string
  brand_name :: string

record BriefBatch = owner_row +
  name :: string
  brand_id :: string

record ExtendedBriefBatch = BriefBatch +
  brands :: "Brand option"

record BriefConcept = owner_row +
  brief_batch_id :: string
  concept_title :: string
  order_in_batch :: int

section \<open>The hosted backend and the browser environment\<close>

text \<open>
  The backend, the clock, the random generator and the network are outside the repository.
  The world holds the three tables and a journal of the effects the code causes; the
  environment fixes what the outside answers during one call: the identifier
  \<open>crypto.randomUUID()\<close> returns, \<open>window.location.origin\<close>, the clock (as the ISO string
  \<open>new Date().toISOString()\<close> and as the time value of \<open>new Date()\<close>), the result of
  \<open>new Date(s)\<close> on a string (\<open>None\<close> is an invalid date), the error message with which
  the backend rejects a request on a table, if it does, and whether the \<open>fetch\<close> of the
  invitation endpoint resolves (with some HTTP status) or rejects.
\<close>

datatype event =
  DbSelect string | DbUpdate string | DbDelete string | HttpPost string | ConsoleError string

datatype fetch_result = Resolves nat | Rejects

record world =
  brands_table :: "Brand list"
  brief_batches :: "BriefBatch list"
  brief_concepts :: "BriefConcept list"
  journal :: "event list"

record env =
  randomUUID :: string
  origin :: string
  now_iso :: string
  now_ms :: int
  Date_parse :: "string \<Rightarrow> int option"
  db_fault :: "string \<Rightarrow> string option"
  fetch_outcome :: fetch_result

record 'a response =
  resp_data :: "'a option"
  resp_error :: "string option"

definition is_write :: "event \<Rightarrow> bool" where
  "is_write ev =
     (case ev of
        DbUpdate _ \<Rightarrow> True | DbDelete _ \<Rightarrow> True | HttpPost _ \<Rightarrow> True | _ \<Rightarrow> False)"

definition record_event :: "event \<Rightarrow> world \<Rightarrow> world" where
  "record_event ev w = w\<lparr>journal := journal w @ [ev]\<rparr>"

definition respond :: "env \<Rightarrow> string \<Rightarrow> 'a \<Rightarrow> 'a response" where
  "respond e table rows =
     (case db_fault e table of
        Some msg \<Rightarrow> \<lparr>resp_data = None, resp_error = Some msg\<rparr>
      | None \<Rightarrow> \<lparr>resp_data = Some rows, resp_error = None\<rparr>)"

text \<open>
  \<open>.contains('share_settings', { [shareId]: {} })\<close> is JSON containment: the column is an
  object that has the key \<open>shareId\<close> with an object as its value. A null column matches
  nothing.
\<close>

definition contains_key :: "string \<Rightarrow> 'a owner_row_scheme \<Rightarrow> bool" where
  "contains_key shareId r =
     (case share_settings r of None \<Rightarrow> False | Some m \<Rightarrow> m shareId \<noteq> None)"

definition embed_brand :: "world \<Rightarrow> BriefBatch \<Rightarrow> ExtendedBriefBatch" where
  "embed_brand w r =
     \<lparr>row_id = row_id r, share_settings = share_settings r, name = name r,
      brand_id = brand_id r,
      brands = find (\<lambda>b. brand_row_id b = brand_id r) (brands_table w)\<rparr>"

definition select_batches_contains ::
  "env \<Rightarrow> string \<Rightarrow> world \<Rightarrow> ExtendedBriefBatch list response \<times> world" where
  "select_batches_contains e shareId w =
     (respond e ''brief_batches''
        (map (embed_brand w) (filter (contains_key shareId) (brief_batches w))),
      record_event (DbSelect ''brief_batches'') w)"

definition select_concepts_contains ::
  "env \<Rightarrow> string \<Rightarrow> world \<Rightarrow> BriefConcept list response \<times> world" where
  "select_concepts_contains e shareId w =
     (respond e ''brief_concepts'' (filter (contains_key shareId) (brief_concepts w)),
      record_event (DbSelect ''brief_concepts'') w)"

definition select_concepts_of_batch ::
  "env \<Rightarrow> string \<Rightarrow> world \<Rightarrow> BriefConcept list response \<times> world" where
  "select_concepts_of_batch e batchId w =
     (respond e ''brief_concepts''
        (sort_key order_in_batch (filter (\<lambda>c. brief_batch_id c = batchId) (brief_concepts w))),
      record_event (DbSelect ''brief_concepts'') w)"

text \<open>
  \<open>.update({ share_settings: m }).eq('id', ownerId).select()\<close> sets the column of every row
  with that id to \<open>m\<close> and answers with the rows it changed; matching no row is not an error.
  A rejected request changes nothing.
\<close>

definition set_share_settings ::
  "string \<Rightarrow> (string \<rightharpoonup> ShareSettings) \<Rightarrow> 'a owner_row_scheme list \<Rightarrow> 'a owner_row_scheme list" where
  "set_share_settings ownerId m rows =
     map (\<lambda>r. if row_id r = ownerId then r\<lparr>share_settings := Some m\<rparr> else r) rows"

definition update_batch_share_settings ::
  "env \<Rightarrow> string \<Rightarrow> (string \<rightharpoonup> ShareSettings) \<Rightarrow> world \<Rightarrow> BriefBatch list response \<times> world" where
  "update_batch_share_settings e batchId m w =
     (let w1 = record_event (DbUpdate ''brief_batches'') w in
      case db_fault e ''brief_batches'' of
        Some msg \<Rightarrow> (\<lparr>resp_data = None, resp_error = Some msg\<rparr>, w1)
      | None \<Rightarrow>
          (let rows = set_share_settings batchId m (brief_batches w) in
           (\<lparr>resp_data = Some (filter (\<lambda>r. row_id r = batchId) rows), resp_error = None\<rparr>,
            w1\<lparr>brief_batches := rows\<rparr>)))"

definition update_concept_share_settings ::
  "env \<Rightarrow> string \<Rightarrow> (string \<rightharpoonup> ShareSettings) \<Rightarrow> world \<Rightarrow> BriefConcept list response \<times> world" where
  "update_concept_share_settings e conceptId m w =
     (let w1 = record_event (DbUpdate ''brief_concepts'') w in
      case db_fault e ''brief_concepts'' of
        Some msg \<Rightarrow> (\<lparr>resp_data = None, resp_error = Some msg\<rparr>, w1)
      | None \<Rightarrow>
          (let rows = set_share_settings conceptId m (brief_concepts w) in
           (\<lparr>resp_data = Some (filter (\<lambda>r. row_id r = conceptId) rows), resp_error = None\<rparr>,
            w1\<lparr>brief_concepts := rows\<rparr>)))"

text \<open>JavaScript truthiness of a string that may be absent: the empty string is falsy.\<close>

definition truthy :: "string option \<Rightarrow> bool" where
  "truthy v = (case v of None \<Rightarrow> False | Some s \<Rightarrow> s \<noteq> [])"

section \<open>Share Issuer (shareBriefBatch, shareBriefConcept)\<close>

text \<open>
  \<open>{ ...shareSettings, created_at: new Date().toISOString(), share_type: shareType }\<close>
\<close>

definition settingsRecord :: "env \<Rightarrow> share_type \<Rightarrow> ShareSettings \<Rightarrow> ShareSettings" where
  "settingsRecord e shareType shareSettings =
     shareSettings\<lparr>created_at := Some (now_iso e), share_type := Some shareType\<rparr>"

text \<open>
  The invitation: \<open>await fetch('/api/share/send-invitation', ...)\<close> inside \<open>try\<close>; a rejected
  promise is caught and logged, a resolved one is not inspected.
\<close>

definition send_invitation :: "env \<Rightarrow> share_type \<Rightarrow> ShareSettings \<Rightarrow> world \<Rightarrow> world" where
  "send_invitation e shareType shareSettings w =
     (if shareType = Email \<and> truthy (email shareSettings) then
        (let w1 = record_event (HttpPost ''/api/share/send-invitation'') w in
         case fetch_outcome e of
           Rejects \<Rightarrow> record_event (ConsoleError ''Error sending share invitation email:'') w1
         | Resolves _ \<Rightarrow> w1)
      else w)"

definition shareBriefBatch ::
  "env \<Rightarrow> string \<Rightarrow> share_type \<Rightarrow> ShareSettings \<Rightarrow> world \<Rightarrow> (string + ShareResult) \<times> world" where
  "shareBriefBatch e batchId shareType shareSettings w =
     (let shareId = randomUUID e;
          shareUrl = origin e @ ''/public/brief/'' @ shareId;
          (resp, w1) = update_batch_share_settings e batchId
                         [shareId \<mapsto> settingsRecord e shareType shareSettings] w
      in case resp_error resp of
           Some msg \<Rightarrow>
             (Inl (''Failed to share brief batch: '' @ msg),
              record_event (ConsoleError ''Error sharing brief batch:'') w1)
         | None \<Rightarrow>
             (Inr \<lparr>share_id = shareId, share_url = shareUrl\<rparr>,
              send_invitation e shareType shareSettings w1))"

definition shareBriefConcept ::
  "env \<Rightarrow> string \<Rightarrow> share_type \<Rightarrow> ShareSettings \<Rightarrow> world \<Rightarrow> (string + ShareResult) \<times> world" where
  "shareBriefConcept e conceptId shareType shareSettings w =
     (let shareId = randomUUID e;
          shareUrl = origin e @ ''/public/concept/'' @ shareId;
          (resp, w1) = update_concept_share_settings e conceptId
                         [shareId \<mapsto> settingsRecord e shareType shareSettings] w
      in case resp_error resp of
           Some msg \<Rightarrow>
             (Inl (''Failed to share brief concept: '' @ msg),
              record_event (ConsoleError ''Error sharing brief concept:'') w1)
         | None \<Rightarrow>
             (Inr \<lparr>share_id = shareId, share_url = shareUrl\<rparr>,
              send_invitation e shareType shareSettings w1))"

section \<open>Deleting a concept (deleteBriefConcept)\<close>

text \<open>
  \<open>.from('brief_concepts').delete().eq('id', conceptId)\<close> removes every row with that id;
  a backend error is logged and thrown as it is, and nothing is removed.
\<close>

definition deleteBriefConcept :: "env \<Rightarrow> string \<Rightarrow> world \<Rightarrow> (string + unit) \<times> world" where
  "deleteBriefConcept e conceptId w =
     (let w1 = record_event (DbDelete ''brief_concepts'') w in
      case db_fault e ''brief_concepts'' of
        Some msg \<Rightarrow> (Inl msg, record_event (ConsoleError ''Error deleting concept:'') w1)
      | None \<Rightarrow>
          (Inr (), w1\<lparr>brief_concepts := filter (\<lambda>c. row_id c \<noteq> conceptId) (brief_concepts w)\<rparr>))"

section \<open>Share Resolver (the public pages)\<close>

record page_state =
  loading :: bool
  error :: "string option"

record SharedBriefPage = page_state +
  brand :: "Brand option"
  batch :: "ExtendedBriefBatch option"
  concepts :: "BriefConcept list"
  isEditable :: bool

record SharedConceptPage = page_state +
  concept :: "BriefConcept option"

definition SharedBriefPage_mount :: SharedBriefPage where
  "SharedBriefPage_mount =
     \<lparr>loading = True, error = None, brand = None, batch = None, concepts = [],
      isEditable = False\<rparr>"

definition SharedConceptPage_mount :: SharedConceptPage where
  "SharedConceptPage_mount = \<lparr>loading = True, error = None, concept = None\<rparr>"

text \<open>An early \<open>return\<close> after \<open>setError(msg); setLoading(false)\<close>.\<close>

definition give_up :: "string \<Rightarrow> 'a page_state_scheme \<Rightarrow> 'a page_state_scheme" where
  "give_up msg st = st\<lparr>error := Some msg, loading := False\<rparr>"

text \<open>
  A thrown backend error: \<open>catch\<close> logs it and sets
  \<open>err.message || 'Failed to load shared content'\<close>, \<open>finally\<close> clears \<open>loading\<close>.
\<close>

definition caught :: "string \<Rightarrow> 'a page_state_scheme \<Rightarrow> 'a page_state_scheme" where
  "caught msg st =
     st\<lparr>error := Some (if msg = [] then ''Failed to load shared content'' else msg),
        loading := False\<rparr>"

text \<open>
  \<open>shareSettings.expires_at && new Date(shareSettings.expires_at) < new Date()\<close>: an absent,
  null or empty \<open>expires_at\<close> is falsy, and an invalid date compares as NaN, which is below
  nothing.
\<close>

definition has_expired :: "env \<Rightarrow> ShareSettings \<Rightarrow> bool" where
  "has_expired e shareSettings =
     (case expires_at shareSettings of
        None \<Rightarrow> False
      | Some s \<Rightarrow>
          s \<noteq> [] \<and> (case Date_parse e s of None \<Rightarrow> False | Some t \<Rightarrow> t < now_ms e))"

text \<open>\<open>row.share_settings?.[shareId]\<close>\<close>

definition settings_of :: "string \<Rightarrow> 'a owner_row_scheme \<Rightarrow> ShareSettings option" where
  "settings_of shareId r = (case share_settings r of None \<Rightarrow> None | Some m \<Rightarrow> m shareId)"

text \<open>The part of \<open>fetchSharedBatch\<close> after the second query has answered.\<close>

definition fetchSharedBatch_concepts ::
  "BriefConcept list response \<Rightarrow> SharedBriefPage \<Rightarrow> world \<Rightarrow> SharedBriefPage \<times> world" where
  "fetchSharedBatch_concepts resp st w =
     (case resp_error resp of
        Some msg \<Rightarrow>
          (caught msg st, record_event (ConsoleError ''Error fetching shared batch:'') w)
      | None \<Rightarrow>
          (st\<lparr>concepts := (case resp_data resp of None \<Rightarrow> [] | Some cs \<Rightarrow> cs),
              loading := False\<rparr>, w))"

text \<open>The part of \<open>fetchSharedBatch\<close> after the containment query has answered.\<close>

definition fetchSharedBatch_found ::
  "env \<Rightarrow> string \<Rightarrow> ExtendedBriefBatch list response \<Rightarrow> SharedBriefPage \<Rightarrow> world
     \<Rightarrow> SharedBriefPage \<times> world" where
  "fetchSharedBatch_found e shareId resp st w =
     (case resp_error resp of
        Some msg \<Rightarrow>
          (caught msg st, record_event (ConsoleError ''Error fetching shared batch:'') w)
      | None \<Rightarrow>
          (case resp_data resp of
             None \<Rightarrow> (give_up ''Shared content not found or has expired'' st, w)
           | Some [] \<Rightarrow> (give_up ''Shared content not found or has expired'' st, w)
           | Some (batchWithShare # _) \<Rightarrow>
               (case settings_of shareId batchWithShare of
                  None \<Rightarrow> (give_up ''Share settings not found'' st, w)
                | Some shareSettings \<Rightarrow>
                    if has_expired e shareSettings
                    then (give_up ''This shared link has expired'' st, w)
                    else
                      (let st1 = st\<lparr>isEditable := (is_editable shareSettings = Some True)\<rparr>;
                           st2 = (case brands batchWithShare of
                                    Some brandData \<Rightarrow> st1\<lparr>brand := Some brandData\<rparr>
                                  | None \<Rightarrow> st1);
                           st3 = st2\<lparr>batch := Some batchWithShare\<rparr>;
                           (cresp, w1) = select_concepts_of_batch e (row_id batchWithShare) w
                       in fetchSharedBatch_concepts cresp st3 w1))))"

definition fetchSharedBatch ::
  "env \<Rightarrow> string \<Rightarrow> SharedBriefPage \<Rightarrow> world \<Rightarrow> SharedBriefPage \<times> world" where
  "fetchSharedBatch e shareId st w =
     (let (resp, w1) = select_batches_contains e shareId w
      in fetchSharedBatch_found e shareId resp (st\<lparr>loading := True\<rparr>) w1)"

text \<open>The part of \<open>fetchSharedConcept\<close> after the containment query has answered.\<close>

definition fetchSharedConcept_found ::
  "env \<Rightarrow> string \<Rightarrow> BriefConcept list response \<Rightarrow> SharedConceptPage \<Rightarrow> world
     \<Rightarrow> SharedConceptPage \<times> world" where
  "fetchSharedConcept_found e shareId resp st w =
     (case resp_error resp of
        Some msg \<Rightarrow>
          (caught msg st, record_event (ConsoleError ''Error fetching shared concept:'') w)
      | None \<Rightarrow>
          (case resp_data resp of
             None \<Rightarrow> (give_up ''Shared concept not found or has expired'' st, w)
           | Some [] \<Rightarrow> (give_up ''Shared concept not found or has expired'' st, w)
           | Some (conceptWithShare # _) \<Rightarrow>
               (case settings_of shareId conceptWithShare of
                  None \<Rightarrow> (give_up ''Share settings not found'' st, w)
                | Some shareSettings \<Rightarrow>
                    if has_expired e shareSettings
                    then (give_up ''This shared link has expired'' st, w)
                    else (st\<lparr>concept := Some conceptWithShare, loading := False\<rparr>, w))))"

definition fetchSharedConcept ::
  "env \<Rightarrow> string \<Rightarrow> SharedConceptPage \<Rightarrow> world \<Rightarrow> SharedConceptPage \<times> world" where
  "fetchSharedConcept e shareId st w =
     (let (resp, w1) = select_concepts_contains e shareId w
      in fetchSharedConcept_found e shareId resp (st\<lparr>loading := True\<rparr>) w1)"

text \<open>
  What a page renders: the spinner while loading, the alert with
  \<open>error || 'Content not found'\<close> when \<open>error || !batch\<close>, the content otherwise
  (\<open>message\<close> reads the \<open>string | null\<close> state: null and the empty string are falsy).
\<close>

datatype view =
    Spinner
  | Alert string
  | BriefContent ExtendedBriefBatch bool "Brand option" "BriefConcept list"
  | ConceptContent BriefConcept

definition message :: "string option \<Rightarrow> string" where
  "message v = (case v of None \<Rightarrow> [] | Some s \<Rightarrow> s)"

definition SharedBriefPage_view :: "SharedBriefPage \<Rightarrow> view" where
  "SharedBriefPage_view st =
     (if loading st then Spinner
      else if message (error st) \<noteq> [] then Alert (message (error st))
      else case batch st of
             None \<Rightarrow> Alert ''Content not found''
           | Some b \<Rightarrow> BriefContent b (isEditable st) (brand st) (concepts st))"

definition SharedConceptPage_view :: "SharedConceptPage \<Rightarrow> view" where
  "SharedConceptPage_view st =
     (if loading st then Spinner
      else if message (error st) \<noteq> [] then Alert (message (error st))
      else case concept st of
             None \<Rightarrow> Alert ''Concept not found''
           | Some c \<Rightarrow> ConceptContent c)"

section \<open>Reading without writing\<close>

text \<open>
  An operation that takes the world from \<open>w\<close> to \<open>w'\<close> only reads when the three tables are
  the same in both and the journal of \<open>w'\<close> is the journal of \<open>w\<close> followed by events none
  of which is an update or an outgoing post.
\<close>

definition only_reads :: "world \<Rightarrow> world \<Rightarrow> bool" where
  "only_reads w w' =
     (brands_table w' = brands_table w \<and> brief_batches w' = brief_batches w
      \<and> brief_concepts w' = brief_concepts w
      \<and> take (length (journal w)) (journal w') = journal w
      \<and> filter is_write (drop (length (journal w)) (journal w')) = [])"

section \<open>A concrete store\<close>

text \<open>
  One brand, one batch and one concept. The batch and the concept each carry one share,
  \<open>share-A\<close>, that is view-only and expires at midnight of 1 June 2024 (UTC).
\<close>

definition share_A :: ShareSettings where
  "share_A =
     \<lparr>is_editable = Some False, expires_at = Some ''2024-06-01T00:00:00.000Z'',
      email = None, created_at = Some ''2024-01-01T00:00:00.000Z'',
      share_type = Some Link\<rparr>"

definition batch_1 :: BriefBatch where
  "batch_1 =
     \<lparr>row_id = ''batch-1'', share_settings = Some [''share-A'' \<mapsto> share_A],
      name = ''Spring launch'', brand_id = ''brand-1''\<rparr>"

definition concept_1 :: BriefConcept where
  "concept_1 =
     \<lparr>row_id = ''c42'', share_settings = Some [''share-A'' \<mapsto> share_A],
      brief_batch_id = ''batch-1'', concept_title = ''Hook'', order_in_batch = 1\<rparr>"

definition brand_1 :: Brand where
  "brand_1 = \<lparr>brand_row_id = ''brand-1'', brand_name = ''Acme''\<rparr>"

definition store_1 :: world where
  "store_1 =
     \<lparr>brands_table = [brand_1], brief_batches = [batch_1], brief_concepts = [concept_1],
      journal = []\<rparr>"

text \<open>
  A browser whose clock stands at the given time value, whose next random identifier is
  \<open>share-B\<close>, whose backend answers every request and whose invitation request is rejected
  by the network. The date parser knows the three date strings that occur below. The ISO
  string of the clock is the one of the time value 0: the issuers, which alone read it, are
  only ever called at \<open>browser_at 0\<close>, and the pages read the time value.
\<close>

definition browser_at :: "int \<Rightarrow> env" where
  "browser_at t =
     \<lparr>randomUUID = ''share-B'', origin = ''https://app.example'',
      now_iso = ''1970-01-01T00:00:00.000Z'', now_ms = t,
      Date_parse =
        (\<lambda>s. if s = ''2024-06-01T00:00:00.000Z'' then Some 1717200000000
             else if s = ''2024-01-01T00:00:00.000Z'' then Some 1704067200000
             else if s = ''1970-01-01T00:00:00.000Z'' then Some 0
             else None),
      db_fault = (\<lambda>_. None), fetch_outcome = Rejects\<rparr>"

definition invite :: ShareSettings where
  "invite =
     \<lparr>is_editable = Some True, expires_at = None, email = Some ''pat@example.org'',
      created_at = None, share_type = None\<rparr>"

text \<open>
  A second store, in which two batches and two concepts hold the same identifier
  \<open>share-A\<close>; the second of each is editable.
\<close>

definition batch_2 :: BriefBatch where
  "batch_2 =
     \<lparr>row_id = ''batch-2'',
      share_settings = Some [''share-A'' \<mapsto> share_A\<lparr>is_editable := Some True\<rparr>],
      name = ''Autumn launch'', brand_id = ''brand-1''\<rparr>"

definition concept_2 :: BriefConcept where
  "concept_2 =
     \<lparr>row_id = ''c43'',
      share_settings = Some [''share-A'' \<mapsto> share_A\<lparr>is_editable := Some True\<rparr>],
      brief_batch_id = ''batch-2'', concept_title = ''Demo'', order_in_batch = 1\<rparr>"

definition store_2 :: world where
  "store_2 =
     \<lparr>brands_table = [brand_1], brief_batches = [batch_1, batch_2],
      brief_concepts = [concept_1, concept_2], journal = []\<rparr>"

section \<open>Whether a page offers editing\<close>

text \<open>
  The batch page renders ``You can edit this content'' when \<open>isEditable\<close> and ``View only''
  otherwise. The concept page keeps no permission in its state and renders the concept
  with a back button only.
\<close>

definition offers_editing :: "view \<Rightarrow> bool" where
  "offers_editing v = (case v of BriefContent _ editable _ _ \<Rightarrow> editable | _ \<Rightarrow> False)"

section \<open>Helper facts\<close>

lemma respond_ok:
  "db_fault e table = None \<Longrightarrow> respond e table rows = \<lparr>resp_data = Some rows, resp_error = None\<rparr>"
  by (simp add: respond_def)

lemma find_filter_Cons:
  "find P xs = Some r \<Longrightarrow> \<exists>rest. filter P xs = r # rest"
  by (induction xs) (auto split: if_splits)

lemma settings_of_embed_brand [simp]:
  "settings_of shareId (embed_brand w r) = settings_of shareId r"
  by (simp add: settings_of_def embed_brand_def)

lemma row_id_embed_brand [simp]: "row_id (embed_brand w r) = row_id r"
  by (simp add: embed_brand_def)

lemma brief_batches_record_event [simp]: "brief_batches (record_event ev w) = brief_batches w"
  by (simp add: record_event_def)

lemma brief_concepts_record_event [simp]: "brief_concepts (record_event ev w) = brief_concepts w"
  by (simp add: record_event_def)

lemma brands_table_record_event [simp]: "brands_table (record_event ev w) = brands_table w"
  by (simp add: record_event_def)

lemma journal_record_event [simp]: "journal (record_event ev w) = journal w @ [ev]"
  by (simp add: record_event_def)

lemma embed_brand_record_event [simp]: "embed_brand (record_event ev w) r = embed_brand w r"
  by (simp add: embed_brand_def)

text \<open>What the issuer leaves in the table when the backend accepts the update.\<close>

lemma shareBriefBatch_writes:
  "db_fault e ''brief_batches'' = None \<Longrightarrow>
   brief_batches (snd (shareBriefBatch e batchId shareType s w)) =
     set_share_settings batchId [randomUUID e \<mapsto> settingsRecord e shareType s] (brief_batches w)"
  by (simp add: shareBriefBatch_def update_batch_share_settings_def send_invitation_def Let_def
      split: fetch_result.splits)

lemma shareBriefConcept_writes:
  "db_fault e ''brief_concepts'' = None \<Longrightarrow>
   brief_concepts (snd (shareBriefConcept e conceptId shareType s w)) =
     set_share_settings conceptId [randomUUID e \<mapsto> settingsRecord e shareType s] (brief_concepts w)"
  by (simp add: shareBriefConcept_def update_concept_share_settings_def send_invitation_def Let_def
      split: fetch_result.splits)

lemma shareBriefBatch_returns:
  "db_fault e ''brief_batches'' = None \<Longrightarrow>
   fst (shareBriefBatch e batchId shareType s w) =
     Inr \<lparr>share_id = randomUUID e, share_url = origin e @ ''/public/brief/'' @ randomUUID e\<rparr>"
  by (simp add: shareBriefBatch_def update_batch_share_settings_def Let_def)

lemma shareBriefConcept_returns:
  "db_fault e ''brief_concepts'' = None \<Longrightarrow>
   fst (shareBriefConcept e conceptId shareType s w) =
     Inr \<lparr>share_id = randomUUID e, share_url = origin e @ ''/public/concept/'' @ randomUUID e\<rparr>"
  by (simp add: shareBriefConcept_def update_concept_share_settings_def Let_def)

section \<open>Issuing a second share\<close>

text \<open>
  C1. The claim: issuing a second share with a fresh identifier leaves the entry of the
  first share in the owner's map. The code sends the one-entry map as the new value of the
  whole column. In the concrete store the batch and the concept hold \<open>share-A\<close>; after
  \<open>shareBriefBatch\<close> and \<open>shareBriefConcept\<close> have issued \<open>share-B\<close> without error, the entry
  for \<open>share-A\<close> is gone from both and only \<open>share-B\<close> is left.
\<close>

theorem second_share_drops_first_entry:
  "map (settings_of ''share-A'') (brief_batches store_1) = [Some share_A]
   \<and> fst (shareBriefBatch (browser_at 0) ''batch-1'' Link invite store_1) =
       Inr \<lparr>share_id = ''share-B'', share_url = ''https://app.example/public/brief/share-B''\<rparr>
   \<and> map (settings_of ''share-A'')
        (brief_batches (snd (shareBriefBatch (browser_at 0) ''batch-1'' Link invite store_1))) = [None]
   \<and> map (settings_of ''share-B'')
        (brief_batches (snd (shareBriefBatch (browser_at 0) ''batch-1'' Link invite store_1)))
       = [Some (settingsRecord (browser_at 0) Link invite)]
   \<and> map (settings_of ''share-A'') (brief_concepts store_1) = [Some share_A]
   \<and> map (settings_of ''share-A'')
        (brief_concepts (snd (shareBriefConcept (browser_at 0) ''c42'' Link invite store_1))) = [None]
   \<and> map (settings_of ''share-B'')
        (brief_concepts (snd (shareBriefConcept (browser_at 0) ''c42'' Link invite store_1)))
       = [Some (settingsRecord (browser_at 0) Link invite)]"
proof -
  have f: "db_fault (browser_at 0) ''brief_batches'' = None"
          "db_fault (browser_at 0) ''brief_concepts'' = None"
    by (simp_all add: browser_at_def)
  show ?thesis
    by (simp add: shareBriefBatch_writes [OF f(1)] shareBriefConcept_writes [OF f(2)]
        shareBriefBatch_returns [OF f(1)]
        set_share_settings_def settings_of_def store_1_def batch_1_def concept_1_def)
       (simp add: browser_at_def)
qed

section \<open>What the pages show\<close>

text \<open>
  The batch page, freshly mounted, when the backend answers both queries and the first row
  of the containment query holds the settings \<open>s\<close> under the identifier.
\<close>

lemma fetchSharedBatch_first_match:
  assumes hit: "find (contains_key shareId) (brief_batches w) = Some r"
    and s: "settings_of shareId r = Some s"
    and ok: "db_fault e ''brief_batches'' = None" "db_fault e ''brief_concepts'' = None"
  shows "SharedBriefPage_view (fst (fetchSharedBatch e shareId SharedBriefPage_mount w)) =
     (if has_expired e s then Alert ''This shared link has expired''
      else BriefContent (embed_brand w r) (is_editable s = Some True)
             (brands (embed_brand w r))
             (sort_key order_in_batch
                (filter (\<lambda>c. brief_batch_id c = row_id r) (brief_concepts w))))"
proof -
  from find_filter_Cons [OF hit]
  obtain rest where rows: "filter (contains_key shareId) (brief_batches w) = r # rest" ..
  show ?thesis
    by (simp add: fetchSharedBatch_def select_batches_contains_def respond_ok ok rows s
        fetchSharedBatch_found_def select_concepts_of_batch_def fetchSharedBatch_concepts_def
        SharedBriefPage_view_def SharedBriefPage_mount_def give_up_def message_def Let_def
        split: option.splits)
qed

lemma fetchSharedConcept_first_match:
  assumes hit: "find (contains_key shareId) (brief_concepts w) = Some r"
    and s: "settings_of shareId r = Some s"
    and ok: "db_fault e ''brief_concepts'' = None"
  shows "SharedConceptPage_view (fst (fetchSharedConcept e shareId SharedConceptPage_mount w)) =
     (if has_expired e s then Alert ''This shared link has expired'' else ConceptContent r)"
proof -
  from find_filter_Cons [OF hit]
  obtain rest where rows: "filter (contains_key shareId) (brief_concepts w) = r # rest" ..
  show ?thesis
    by (simp add: fetchSharedConcept_def select_concepts_contains_def respond_ok ok rows s
        fetchSharedConcept_found_def SharedConceptPage_view_def SharedConceptPage_mount_def
        give_up_def message_def Let_def)
qed

text \<open>The pages when no row holds the identifier.\<close>

lemma fetchSharedBatch_no_match:
  assumes "filter (contains_key shareId) (brief_batches w) = []"
    and "db_fault e ''brief_batches'' = None"
  shows "SharedBriefPage_view (fst (fetchSharedBatch e shareId SharedBriefPage_mount w)) =
     Alert ''Shared content not found or has expired''"
  using assms
  by (simp add: fetchSharedBatch_def select_batches_contains_def respond_ok
      fetchSharedBatch_found_def SharedBriefPage_view_def give_up_def message_def)

lemma fetchSharedConcept_no_match:
  assumes "filter (contains_key shareId) (brief_concepts w) = []"
    and "db_fault e ''brief_concepts'' = None"
  shows "SharedConceptPage_view (fst (fetchSharedConcept e shareId SharedConceptPage_mount w)) =
     Alert ''Shared concept not found or has expired''"
  using assms
  by (simp add: fetchSharedConcept_def select_concepts_contains_def respond_ok
      fetchSharedConcept_found_def SharedConceptPage_view_def give_up_def message_def)

text \<open>The concrete store, looked up.\<close>

lemma store_1_lookup:
  "find (contains_key ''share-A'') (brief_batches store_1) = Some batch_1"
  "find (contains_key ''share-A'') (brief_concepts store_1) = Some concept_1"
  "settings_of ''share-A'' batch_1 = Some share_A"
  "settings_of ''share-A'' concept_1 = Some share_A"
  by (simp_all add: store_1_def batch_1_def concept_1_def contains_key_def settings_of_def)

lemma browser_at_answers:
  "db_fault (browser_at t) table = None"
  "now_ms (browser_at t) = t"
  "Date_parse (browser_at t) ''2024-06-01T00:00:00.000Z'' = Some 1717200000000"
  "randomUUID (browser_at t) = ''share-B''"
  "origin (browser_at t) = ''https://app.example''"
  by (simp_all add: browser_at_def)

lemma store_1_page:
  "embed_brand store_1 batch_1 =
     \<lparr>row_id = ''batch-1'', share_settings = Some [''share-A'' \<mapsto> share_A],
      name = ''Spring launch'', brand_id = ''brand-1'', brands = Some brand_1\<rparr>"
  "sort_key order_in_batch
     (filter (\<lambda>c. brief_batch_id c = row_id batch_1) (brief_concepts store_1)) = [concept_1]"
  by (simp_all add: embed_brand_def store_1_def batch_1_def concept_1_def brand_1_def)

section \<open>Expiry\<close>

text \<open>
  C2, as the claim states it, fails at the instant of expiry. In the concrete store
  \<open>share-A\<close> expires at the time value 1717200000000; a visitor whose clock shows exactly
  that value is shown the batch and the concept, not the expiry message.
\<close>

theorem expiry_instant_still_resolves:
  "expires_at share_A = Some ''2024-06-01T00:00:00.000Z''
   \<and> Date_parse (browser_at 1717200000000) ''2024-06-01T00:00:00.000Z''
       = Some (now_ms (browser_at 1717200000000))
   \<and> SharedBriefPage_view
       (fst (fetchSharedBatch (browser_at 1717200000000) ''share-A'' SharedBriefPage_mount store_1))
       = BriefContent (embed_brand store_1 batch_1) False (Some brand_1) [concept_1]
   \<and> SharedBriefPage_view
       (fst (fetchSharedBatch (browser_at 1717200000000) ''share-A'' SharedBriefPage_mount store_1))
       \<noteq> Alert ''This shared link has expired''
   \<and> SharedConceptPage_view
       (fst (fetchSharedConcept (browser_at 1717200000000) ''share-A'' SharedConceptPage_mount store_1))
       = ConceptContent concept_1"
  by (simp add: fetchSharedBatch_first_match [OF store_1_lookup(1) store_1_lookup(3)]
      fetchSharedConcept_first_match [OF store_1_lookup(2) store_1_lookup(4)]
      browser_at_answers has_expired_def store_1_page share_A_def)

text \<open>
  C2, amended. When the row the containment query returns first holds, under the
  identifier, settings whose \<open>expires_at\<close> is a non-empty string that parses to the time
  value \<open>t\<close>, and the backend answers the page's queries, the page shows
  ``This shared link has expired'' exactly when \<open>t\<close> is strictly before the current time;
  at every current time up to and including \<open>t\<close> it shows the content.
\<close>

theorem expiry_strictly_after:
  assumes "expires_at s = Some str" and "str \<noteq> []" and "Date_parse e str = Some t"
  shows
    "(find (contains_key shareId) (brief_batches w) = Some b \<and> settings_of shareId b = Some s
       \<and> db_fault e ''brief_batches'' = None \<and> db_fault e ''brief_concepts'' = None
      \<longrightarrow> SharedBriefPage_view (fst (fetchSharedBatch e shareId SharedBriefPage_mount w)) =
            (if t < now_ms e then Alert ''This shared link has expired''
             else BriefContent (embed_brand w b) (is_editable s = Some True)
                    (brands (embed_brand w b))
                    (sort_key order_in_batch
                       (filter (\<lambda>c. brief_batch_id c = row_id b) (brief_concepts w)))))
     \<and> (find (contains_key shareId) (brief_concepts w) = Some c \<and> settings_of shareId c = Some s
         \<and> db_fault e ''brief_concepts'' = None
        \<longrightarrow> SharedConceptPage_view (fst (fetchSharedConcept e shareId SharedConceptPage_mount w)) =
              (if t < now_ms e then Alert ''This shared link has expired''
               else ConceptContent c))"
proof -
  have "has_expired e s = (t < now_ms e)"
    using assms by (simp add: has_expired_def)
  then show ?thesis
    by (simp add: fetchSharedBatch_first_match fetchSharedConcept_first_match)
qed

theorem expiry_strictly_after_witness:
  "SharedBriefPage_view
     (fst (fetchSharedBatch (browser_at 1717199999999) ''share-A'' SharedBriefPage_mount store_1))
     = BriefContent (embed_brand store_1 batch_1) False (Some brand_1) [concept_1]
   \<and> SharedBriefPage_view
     (fst (fetchSharedBatch (browser_at 1717200000001) ''share-A'' SharedBriefPage_mount store_1))
     = Alert ''This shared link has expired''
   \<and> SharedConceptPage_view
     (fst (fetchSharedConcept (browser_at 1717199999999) ''share-A'' SharedConceptPage_mount store_1))
     = ConceptContent concept_1
   \<and> SharedConceptPage_view
     (fst (fetchSharedConcept (browser_at 1717200000001) ''share-A'' SharedConceptPage_mount store_1))
     = Alert ''This shared link has expired''"
proof -
  have h: "expires_at share_A = Some ''2024-06-01T00:00:00.000Z''"
          "''2024-06-01T00:00:00.000Z'' \<noteq> []"
          "is_editable share_A = Some False"
    by (simp_all add: share_A_def)
  note before = expiry_strictly_after [where e = "browser_at 1717199999999"
      and shareId = "''share-A''" and w = store_1 and b = batch_1 and c = concept_1,
      OF h(1) h(2) browser_at_answers(3)]
  note after = expiry_strictly_after [where e = "browser_at 1717200000001"
      and shareId = "''share-A''" and w = store_1 and b = batch_1 and c = concept_1,
      OF h(1) h(2) browser_at_answers(3)]
  show ?thesis
    using before after
    by (simp add: store_1_lookup browser_at_answers store_1_page h(3))
qed

section \<open>Unknown identifiers\<close>

text \<open>
  C3, as the claim states it, fails on the concept page: for an identifier no record holds,
  that page shows ``Shared concept not found or has expired'', which is not the message
  the claim names.
\<close>

theorem concept_page_not_found_message:
  "filter (contains_key ''never-issued'') (brief_batches store_1) = []
   \<and> filter (contains_key ''never-issued'') (brief_concepts store_1) = []
   \<and> SharedConceptPage_view
       (fst (fetchSharedConcept (browser_at 0) ''never-issued'' SharedConceptPage_mount store_1))
       = Alert ''Shared concept not found or has expired''
   \<and> SharedConceptPage_view
       (fst (fetchSharedConcept (browser_at 0) ''never-issued'' SharedConceptPage_mount store_1))
       \<noteq> Alert ''Shared content not found or has expired''"
proof -
  have none: "filter (contains_key ''never-issued'') (brief_batches store_1) = []"
             "filter (contains_key ''never-issued'') (brief_concepts store_1) = []"
    by (simp_all add: store_1_def batch_1_def concept_1_def contains_key_def)
  show ?thesis
    by (simp add: none fetchSharedConcept_no_match [OF none(2) browser_at_answers(1)])
qed

text \<open>
  C3, amended. For an identifier that no record's share-settings map has as a key, with
  the backend answering the containment query, the batch page shows
  ``Shared content not found or has expired'' and the concept page shows
  ``Shared concept not found or has expired''; neither tells an identifier that never
  existed from one that was deleted.
\<close>

theorem never_issued_not_found:
  "((\<forall>r\<in>set (brief_batches w). \<not> contains_key shareId r)
      \<and> db_fault e ''brief_batches'' = None
     \<longrightarrow> SharedBriefPage_view (fst (fetchSharedBatch e shareId SharedBriefPage_mount w)) =
           Alert ''Shared content not found or has expired'')
   \<and> ((\<forall>r\<in>set (brief_concepts w). \<not> contains_key shareId r)
        \<and> db_fault e ''brief_concepts'' = None
       \<longrightarrow> SharedConceptPage_view (fst (fetchSharedConcept e shareId SharedConceptPage_mount w)) =
             Alert ''Shared concept not found or has expired'')"
  by (simp add: fetchSharedBatch_no_match fetchSharedConcept_no_match)

theorem never_issued_not_found_witness:
  "map (contains_key ''share-Z'') (brief_batches store_1) = [False]
   \<and> map (contains_key ''share-Z'') (brief_concepts store_1) = [False]
   \<and> SharedBriefPage_view
       (fst (fetchSharedBatch (browser_at 5) ''share-Z'' SharedBriefPage_mount store_1))
       = Alert ''Shared content not found or has expired''
   \<and> SharedConceptPage_view
       (fst (fetchSharedConcept (browser_at 5) ''share-Z'' SharedConceptPage_mount store_1))
       = Alert ''Shared concept not found or has expired''"
proof -
  have none: "\<forall>r\<in>set (brief_batches store_1). \<not> contains_key ''share-Z'' r"
             "\<forall>r\<in>set (brief_concepts store_1). \<not> contains_key ''share-Z'' r"
    by (simp_all add: store_1_def batch_1_def concept_1_def contains_key_def)
  have rows: "map (contains_key ''share-Z'') (brief_batches store_1) = [False]"
             "map (contains_key ''share-Z'') (brief_concepts store_1) = [False]"
    by (simp_all add: store_1_def batch_1_def concept_1_def contains_key_def)
  show ?thesis
    using never_issued_not_found [of store_1 "''share-Z''" "browser_at 5"] none
    by (simp add: browser_at_answers rows)
qed

section \<open>Resolution is read-only\<close>

lemma only_reads_refl: "only_reads w w"
  by (simp add: only_reads_def)

lemma only_reads_record_event:
  "\<not> is_write ev \<Longrightarrow> only_reads w w' \<Longrightarrow> only_reads w (record_event ev w')"
proof -
  assume nw: "\<not> is_write ev" and r: "only_reads w w'"
  from r have t: "take (length (journal w)) (journal w') = journal w"
    by (simp add: only_reads_def)
  then have len: "length (journal w) \<le> length (journal w')"
    by (metis length_take min.cobounded1)
  show ?thesis
    using nw r len by (simp add: only_reads_def)
qed

lemma is_write_simps [simp]:
  "\<not> is_write (DbSelect t)" "\<not> is_write (ConsoleError m)"
  "is_write (DbUpdate t)" "is_write (DbDelete t)" "is_write (HttpPost u)"
  by (simp_all add: is_write_def)

lemma fetchSharedBatch_concepts_reads:
  "only_reads w w' \<Longrightarrow> only_reads w (snd (fetchSharedBatch_concepts resp st w'))"
  by (simp add: fetchSharedBatch_concepts_def only_reads_record_event split: option.splits)

lemma fetchSharedBatch_found_reads:
  "only_reads w w' \<Longrightarrow> only_reads w (snd (fetchSharedBatch_found e shareId resp st w'))"
  by (simp add: fetchSharedBatch_found_def select_concepts_of_batch_def Let_def
      fetchSharedBatch_concepts_reads only_reads_record_event
      split: option.splits list.splits)

lemma fetchSharedConcept_found_reads:
  "only_reads w w' \<Longrightarrow> only_reads w (snd (fetchSharedConcept_found e shareId resp st w'))"
  by (simp add: fetchSharedConcept_found_def only_reads_record_event
      split: option.splits list.splits)

text \<open>
  C9. From every world, for every identifier, clock, earlier page state and behaviour of
  the backend, \<open>fetchSharedBatch\<close> and \<open>fetchSharedConcept\<close> leave the three tables as they
  found them, share-settings maps and expired entries included, and add to the journal
  only select queries and console messages.
\<close>

theorem resolution_is_read_only:
  "only_reads w (snd (fetchSharedBatch e shareId st w))
   \<and> brief_batches (snd (fetchSharedBatch e shareId st w)) = brief_batches w
   \<and> brief_concepts (snd (fetchSharedBatch e shareId st w)) = brief_concepts w
   \<and> brands_table (snd (fetchSharedBatch e shareId st w)) = brands_table w
   \<and> only_reads w (snd (fetchSharedConcept e shareId ct w))
   \<and> brief_batches (snd (fetchSharedConcept e shareId ct w)) = brief_batches w
   \<and> brief_concepts (snd (fetchSharedConcept e shareId ct w)) = brief_concepts w
   \<and> brands_table (snd (fetchSharedConcept e shareId ct w)) = brands_table w"
proof -
  have b: "only_reads w (snd (fetchSharedBatch e shareId st w))"
    by (simp add: fetchSharedBatch_def select_batches_contains_def fetchSharedBatch_found_reads
        only_reads_record_event only_reads_refl)
  have c: "only_reads w (snd (fetchSharedConcept e shareId ct w))"
    by (simp add: fetchSharedConcept_def select_concepts_contains_def
        fetchSharedConcept_found_reads only_reads_record_event only_reads_refl)
  show ?thesis
    using b c by (simp add: only_reads_def)
qed

section \<open>The notification does not decide the result\<close>

lemma set_share_settings_owner:
  assumes "r \<in> set (set_share_settings ownerId m rows)" and "row_id r = ownerId"
  shows "share_settings r = Some m"
proof -
  from assms(1) obtain r0
    where r: "r = (if row_id r0 = ownerId then r0\<lparr>share_settings := Some m\<rparr> else r0)"
    unfolding set_share_settings_def set_map by (rule imageE)
  show ?thesis
  proof (cases "row_id r0 = ownerId")
    case True
    with r show ?thesis by simp
  next
    case False
    with r assms(2) show ?thesis by simp
  qed
qed

lemma set_share_settings_keeps_owner:
  assumes "\<exists>r\<in>set rows. row_id r = ownerId"
  shows "\<exists>r\<in>set (set_share_settings ownerId m rows). row_id r = ownerId"
proof -
  from assms obtain r0 where r0: "r0 \<in> set rows" "row_id r0 = ownerId" by blast
  let ?f = "\<lambda>r. if row_id r = ownerId then r\<lparr>share_settings := Some m\<rparr> else r"
  have "?f r0 \<in> set (set_share_settings ownerId m rows)"
    unfolding set_share_settings_def set_map using r0(1) by (rule imageI)
  moreover have "row_id (?f r0) = ownerId"
    using r0(2) by simp
  ultimately show ?thesis by blast
qed

lemma set_share_settings_no_owner:
  assumes "\<forall>r\<in>set rows. row_id r \<noteq> ownerId"
  shows "set_share_settings ownerId m rows = rows"
  unfolding set_share_settings_def using assms by (simp add: map_idI)

lemma shareBriefBatch_journal:
  "db_fault e ''brief_batches'' = None \<Longrightarrow> truthy (email s) \<Longrightarrow>
   journal (snd (shareBriefBatch e batchId Email s w)) =
     journal w @ [DbUpdate ''brief_batches'', HttpPost ''/api/share/send-invitation'']
       @ (case fetch_outcome e of
            Rejects \<Rightarrow> [ConsoleError ''Error sending share invitation email:'']
          | Resolves _ \<Rightarrow> [])"
  by (simp add: shareBriefBatch_def update_batch_share_settings_def send_invitation_def Let_def
      split: fetch_result.splits)

lemma shareBriefConcept_journal:
  "db_fault e ''brief_concepts'' = None \<Longrightarrow> truthy (email s) \<Longrightarrow>
   journal (snd (shareBriefConcept e conceptId Email s w)) =
     journal w @ [DbUpdate ''brief_concepts'', HttpPost ''/api/share/send-invitation'']
       @ (case fetch_outcome e of
            Rejects \<Rightarrow> [ConsoleError ''Error sending share invitation email:'']
          | Resolves _ \<Rightarrow> [])"
  by (simp add: shareBriefConcept_def update_concept_share_settings_def send_invitation_def Let_def
      split: fetch_result.splits)

lemma shareBriefBatch_persisted:
  assumes "db_fault e ''brief_batches'' = None"
    and "r \<in> set (brief_batches (snd (shareBriefBatch e ownerId shareType s w)))"
    and "row_id r = ownerId"
  shows "settings_of (randomUUID e) r = Some (settingsRecord e shareType s)"
proof -
  from assms(2)
  have "r \<in> set (set_share_settings ownerId
                  [randomUUID e \<mapsto> settingsRecord e shareType s] (brief_batches w))"
    by (simp only: shareBriefBatch_writes [OF assms(1)])
  from set_share_settings_owner [OF this assms(3)]
  show ?thesis
    by (simp add: settings_of_def)
qed

lemma shareBriefConcept_persisted:
  assumes "db_fault e ''brief_concepts'' = None"
    and "r \<in> set (brief_concepts (snd (shareBriefConcept e ownerId shareType s w)))"
    and "row_id r = ownerId"
  shows "settings_of (randomUUID e) r = Some (settingsRecord e shareType s)"
proof -
  from assms(2)
  have "r \<in> set (set_share_settings ownerId
                  [randomUUID e \<mapsto> settingsRecord e shareType s] (brief_concepts w))"
    by (simp only: shareBriefConcept_writes [OF assms(1)])
  from set_share_settings_owner [OF this assms(3)]
  show ?thesis
    by (simp add: settings_of_def)
qed

lemma shareBriefBatch_owner_kept:
  assumes "db_fault e ''brief_batches'' = None"
    and "\<exists>r\<in>set (brief_batches w). row_id r = ownerId"
  shows "\<exists>r\<in>set (brief_batches (snd (shareBriefBatch e ownerId shareType s w))).
           row_id r = ownerId"
  by (simp only: shareBriefBatch_writes [OF assms(1)] set_share_settings_keeps_owner [OF assms(2)])

lemma shareBriefConcept_owner_kept:
  assumes "db_fault e ''brief_concepts'' = None"
    and "\<exists>r\<in>set (brief_concepts w). row_id r = ownerId"
  shows "\<exists>r\<in>set (brief_concepts (snd (shareBriefConcept e ownerId shareType s w))).
           row_id r = ownerId"
  by (simp only: shareBriefConcept_writes [OF assms(1)] set_share_settings_keeps_owner [OF assms(2)])

text \<open>
  C6. For an email share with an email address present, on an existing owner and with the
  update accepted by the backend: whatever becomes of the invitation request (resolved with
  any status, or rejected), the call returns the identifier and the URL, and every row of
  the owner holds the new entry. The journal shows that the request was attempted after
  the update and that a rejection only adds a console message.
\<close>

theorem notification_failure_absorbed:
  assumes "truthy (email s)"
  shows
    "(db_fault e ''brief_batches'' = None \<and> (\<exists>r\<in>set (brief_batches w). row_id r = ownerId)
      \<longrightarrow> fst (shareBriefBatch e ownerId Email s w) =
            Inr \<lparr>share_id = randomUUID e,
                 share_url = origin e @ ''/public/brief/'' @ randomUUID e\<rparr>
          \<and> (\<exists>r\<in>set (brief_batches (snd (shareBriefBatch e ownerId Email s w))).
                row_id r = ownerId)
          \<and> (\<forall>r\<in>set (brief_batches (snd (shareBriefBatch e ownerId Email s w))).
                row_id r = ownerId \<longrightarrow>
                settings_of (randomUUID e) r = Some (settingsRecord e Email s))
          \<and> journal (snd (shareBriefBatch e ownerId Email s w)) =
              journal w @ [DbUpdate ''brief_batches'', HttpPost ''/api/share/send-invitation'']
                @ (case fetch_outcome e of
                     Rejects \<Rightarrow> [ConsoleError ''Error sending share invitation email:'']
                   | Resolves _ \<Rightarrow> []))
     \<and> (db_fault e ''brief_concepts'' = None \<and> (\<exists>r\<in>set (brief_concepts w). row_id r = ownerId)
        \<longrightarrow> fst (shareBriefConcept e ownerId Email s w) =
              Inr \<lparr>share_id = randomUUID e,
                   share_url = origin e @ ''/public/concept/'' @ randomUUID e\<rparr>
            \<and> (\<exists>r\<in>set (brief_concepts (snd (shareBriefConcept e ownerId Email s w))).
                  row_id r = ownerId)
            \<and> (\<forall>r\<in>set (brief_concepts (snd (shareBriefConcept e ownerId Email s w))).
                  row_id r = ownerId \<longrightarrow>
                  settings_of (randomUUID e) r = Some (settingsRecord e Email s))
            \<and> journal (snd (shareBriefConcept e ownerId Email s w)) =
                journal w @ [DbUpdate ''brief_concepts'', HttpPost ''/api/share/send-invitation'']
                  @ (case fetch_outcome e of
                       Rejects \<Rightarrow> [ConsoleError ''Error sending share invitation email:'']
                     | Resolves _ \<Rightarrow> []))"
proof (intro conjI impI)
  assume h: "db_fault e ''brief_batches'' = None \<and> (\<exists>r\<in>set (brief_batches w). row_id r = ownerId)"
  then have ok: "db_fault e ''brief_batches'' = None"
    and own: "\<exists>r\<in>set (brief_batches w). row_id r = ownerId"
    by simp_all
  show "fst (shareBriefBatch e ownerId Email s w) =
          Inr \<lparr>share_id = randomUUID e, share_url = origin e @ ''/public/brief/'' @ randomUUID e\<rparr>"
    by (rule shareBriefBatch_returns [OF ok])
  show "\<exists>r\<in>set (brief_batches (snd (shareBriefBatch e ownerId Email s w))). row_id r = ownerId"
    by (rule shareBriefBatch_owner_kept [OF ok own])
  show "\<forall>r\<in>set (brief_batches (snd (shareBriefBatch e ownerId Email s w))).
          row_id r = ownerId \<longrightarrow> settings_of (randomUUID e) r = Some (settingsRecord e Email s)"
    using shareBriefBatch_persisted [OF ok] by blast
  show "journal (snd (shareBriefBatch e ownerId Email s w)) =
          journal w @ [DbUpdate ''brief_batches'', HttpPost ''/api/share/send-invitation'']
            @ (case fetch_outcome e of
                 Rejects \<Rightarrow> [ConsoleError ''Error sending share invitation email:'']
               | Resolves _ \<Rightarrow> [])"
    by (rule shareBriefBatch_journal [OF ok assms])
next
  assume h: "db_fault e ''brief_concepts'' = None \<and> (\<exists>r\<in>set (brief_concepts w). row_id r = ownerId)"
  then have ok: "db_fault e ''brief_concepts'' = None"
    and own: "\<exists>r\<in>set (brief_concepts w). row_id r = ownerId"
    by simp_all
  show "fst (shareBriefConcept e ownerId Email s w) =
          Inr \<lparr>share_id = randomUUID e, share_url = origin e @ ''/public/concept/'' @ randomUUID e\<rparr>"
    by (rule shareBriefConcept_returns [OF ok])
  show "\<exists>r\<in>set (brief_concepts (snd (shareBriefConcept e ownerId Email s w))). row_id r = ownerId"
    by (rule shareBriefConcept_owner_kept [OF ok own])
  show "\<forall>r\<in>set (brief_concepts (snd (shareBriefConcept e ownerId Email s w))).
          row_id r = ownerId \<longrightarrow> settings_of (randomUUID e) r = Some (settingsRecord e Email s)"
    using shareBriefConcept_persisted [OF ok] by blast
  show "journal (snd (shareBriefConcept e ownerId Email s w)) =
          journal w @ [DbUpdate ''brief_concepts'', HttpPost ''/api/share/send-invitation'']
            @ (case fetch_outcome e of
                 Rejects \<Rightarrow> [ConsoleError ''Error sending share invitation email:'']
               | Resolves _ \<Rightarrow> [])"
    by (rule shareBriefConcept_journal [OF ok assms])
qed

theorem notification_failure_absorbed_witness:
  "truthy (email invite) \<and> fetch_outcome (browser_at 0) = Rejects
   \<and> fst (shareBriefBatch (browser_at 0) ''batch-1'' Email invite store_1) =
       Inr \<lparr>share_id = ''share-B'', share_url = ''https://app.example/public/brief/share-B''\<rparr>
   \<and> map (settings_of ''share-B'')
       (brief_batches (snd (shareBriefBatch (browser_at 0) ''batch-1'' Email invite store_1)))
       = [Some (settingsRecord (browser_at 0) Email invite)]
   \<and> journal (snd (shareBriefBatch (browser_at 0) ''batch-1'' Email invite store_1)) =
       [DbUpdate ''brief_batches'', HttpPost ''/api/share/send-invitation'',
        ConsoleError ''Error sending share invitation email:'']
   \<and> fst (shareBriefConcept (browser_at 0) ''c42'' Email invite store_1) =
       Inr \<lparr>share_id = ''share-B'', share_url = ''https://app.example/public/concept/share-B''\<rparr>
   \<and> map (settings_of ''share-B'')
       (brief_concepts (snd (shareBriefConcept (browser_at 0) ''c42'' Email invite store_1)))
       = [Some (settingsRecord (browser_at 0) Email invite)]"
proof -
  have h: "truthy (email invite)" "fetch_outcome (browser_at 0) = Rejects"
    by (simp_all add: truthy_def invite_def browser_at_def)
  have owner: "\<exists>r\<in>set (brief_batches store_1). row_id r = ''batch-1''"
              "\<exists>r\<in>set (brief_concepts store_1). row_id r = ''c42''"
    by (simp_all add: store_1_def batch_1_def concept_1_def)
  have rows: "brief_batches (snd (shareBriefBatch (browser_at 0) ''batch-1'' Email invite store_1))
      = [batch_1\<lparr>share_settings := Some [''share-B'' \<mapsto> settingsRecord (browser_at 0) Email invite]\<rparr>]"
    "brief_concepts (snd (shareBriefConcept (browser_at 0) ''c42'' Email invite store_1))
      = [concept_1\<lparr>share_settings := Some [''share-B'' \<mapsto> settingsRecord (browser_at 0) Email invite]\<rparr>]"
    by (simp_all add: shareBriefBatch_writes shareBriefConcept_writes browser_at_answers
        set_share_settings_def store_1_def batch_1_def concept_1_def)
  have j: "journal store_1 = []"
    by (simp add: store_1_def)
  note b = notification_failure_absorbed [where e = "browser_at 0" and w = store_1
      and ownerId = "''batch-1''", OF h(1), THEN conjunct1, rule_format,
      OF conjI [OF browser_at_answers(1) owner(1)]]
  note c = notification_failure_absorbed [where e = "browser_at 0" and w = store_1
      and ownerId = "''c42''", OF h(1), THEN conjunct2, rule_format,
      OF conjI [OF browser_at_answers(1) owner(2)]]
  have "fst (shareBriefBatch (browser_at 0) ''batch-1'' Email invite store_1) =
       Inr \<lparr>share_id = ''share-B'', share_url = ''https://app.example/public/brief/share-B''\<rparr>"
    using b by (simp add: browser_at_answers)
  moreover have "journal (snd (shareBriefBatch (browser_at 0) ''batch-1'' Email invite store_1)) =
       [DbUpdate ''brief_batches'', HttpPost ''/api/share/send-invitation'',
        ConsoleError ''Error sending share invitation email:'']"
    using b by (simp add: h(2) j)
  moreover have "fst (shareBriefConcept (browser_at 0) ''c42'' Email invite store_1) =
       Inr \<lparr>share_id = ''share-B'', share_url = ''https://app.example/public/concept/share-B''\<rparr>"
    using c by (simp add: browser_at_answers)
  moreover have "map (settings_of ''share-B'')
       (brief_batches (snd (shareBriefBatch (browser_at 0) ''batch-1'' Email invite store_1)))
       = [Some (settingsRecord (browser_at 0) Email invite)]"
    by (simp add: rows settings_of_def)
  moreover have "map (settings_of ''share-B'')
       (brief_concepts (snd (shareBriefConcept (browser_at 0) ''c42'' Email invite store_1)))
       = [Some (settingsRecord (browser_at 0) Email invite)]"
    by (simp add: rows settings_of_def)
  ultimately show ?thesis
    using h by simp
qed

section \<open>The share URL\<close>

text \<open>
  C8, as the claim states it, fails for concept shares: the URL \<open>shareBriefConcept\<close> returns
  for the concept \<open>c42\<close> is the origin, the path \<open>/public/concept/\<close> and the share
  identifier; the concept's id occurs nowhere in it.
\<close>

theorem concept_url_without_owner_id:
  "fst (shareBriefConcept (browser_at 0) ''c42'' Link invite store_1) =
     Inr \<lparr>share_id = ''share-B'', share_url = ''https://app.example/public/concept/share-B''\<rparr>
   \<and> \<not> sublist ''c42'' ''https://app.example/public/concept/share-B''"
proof -
  have "\<not> sublist ''c42'' ''https://app.example/public/concept/share-B''"
    by (simp add: sublist_Cons_right)
  then show ?thesis
    by (simp add: shareBriefConcept_returns browser_at_answers)
qed

text \<open>
  C8, amended. Every call that returns a result returns the freshly generated identifier
  as \<open>share_id\<close>, and as \<open>share_url\<close> the caller's origin followed by \<open>/public/brief/\<close> (for a
  batch) or \<open>/public/concept/\<close> (for a concept) and that identifier. The owner's id is in
  neither.
\<close>

theorem share_url_template:
  "(fst (shareBriefBatch e ownerId shareType s w) = Inr res
     \<longrightarrow> share_id res = randomUUID e
         \<and> share_url res = origin e @ ''/public/brief/'' @ share_id res)
   \<and> (fst (shareBriefConcept e ownerId shareType s w) = Inr res'
       \<longrightarrow> share_id res' = randomUUID e
           \<and> share_url res' = origin e @ ''/public/concept/'' @ share_id res')"
  by (auto simp: shareBriefBatch_def shareBriefConcept_def update_batch_share_settings_def
      update_concept_share_settings_def Let_def split: option.splits)

theorem share_url_template_witness:
  "fst (shareBriefBatch (browser_at 0) ''batch-1'' Link invite store_1) =
     Inr \<lparr>share_id = ''share-B'', share_url = ''https://app.example/public/brief/share-B''\<rparr>
   \<and> fst (shareBriefConcept (browser_at 0) ''c42'' Link invite store_1) =
     Inr \<lparr>share_id = ''share-B'', share_url = ''https://app.example/public/concept/share-B''\<rparr>"
proof -
  obtain rb where rb: "fst (shareBriefBatch (browser_at 0) ''batch-1'' Link invite store_1) = Inr rb"
    by (simp add: shareBriefBatch_returns browser_at_answers)
  obtain rc where rc: "fst (shareBriefConcept (browser_at 0) ''c42'' Link invite store_1) = Inr rc"
    by (simp add: shareBriefConcept_returns browser_at_answers)
  from share_url_template [where e = "browser_at 0" and shareType = Link and s = invite
      and w = store_1 and res = rb and res' = rc and ownerId = "''batch-1''"]
    share_url_template [where e = "browser_at 0" and shareType = Link and s = invite
      and w = store_1 and res = rb and res' = rc and ownerId = "''c42''"]
  have "share_id rb = ''share-B'' \<and> share_url rb = ''https://app.example/public/brief/share-B''
      \<and> share_id rc = ''share-B'' \<and> share_url rc = ''https://app.example/public/concept/share-B''"
    using rb rc by (simp add: browser_at_answers)
  then show ?thesis
    using rb rc by simp
qed

section \<open>An owner that does not exist\<close>

text \<open>
  C10. Neither issuer looks at the rows the update answers with. When no row has the given
  owner id and the backend accepts the update (which then matches nothing), the call
  returns an identifier and a URL with no error, the tables are what they were, and, the
  identifier being fresh, the page behind the returned link shows the not-found message.
\<close>

theorem share_of_missing_owner_succeeds:
  "((\<forall>r\<in>set (brief_batches w). row_id r \<noteq> ownerId \<and> \<not> contains_key (randomUUID e) r)
      \<and> db_fault e ''brief_batches'' = None \<and> db_fault e' ''brief_batches'' = None
     \<longrightarrow> fst (shareBriefBatch e ownerId shareType s w) =
           Inr \<lparr>share_id = randomUUID e,
                share_url = origin e @ ''/public/brief/'' @ randomUUID e\<rparr>
         \<and> brief_batches (snd (shareBriefBatch e ownerId shareType s w)) = brief_batches w
         \<and> SharedBriefPage_view
             (fst (fetchSharedBatch e' (randomUUID e) SharedBriefPage_mount
                (snd (shareBriefBatch e ownerId shareType s w))))
             = Alert ''Shared content not found or has expired'')
   \<and> ((\<forall>r\<in>set (brief_concepts w). row_id r \<noteq> ownerId \<and> \<not> contains_key (randomUUID e) r)
        \<and> db_fault e ''brief_concepts'' = None \<and> db_fault e' ''brief_concepts'' = None
       \<longrightarrow> fst (shareBriefConcept e ownerId shareType s w) =
             Inr \<lparr>share_id = randomUUID e,
                  share_url = origin e @ ''/public/concept/'' @ randomUUID e\<rparr>
           \<and> brief_concepts (snd (shareBriefConcept e ownerId shareType s w)) = brief_concepts w
           \<and> SharedConceptPage_view
               (fst (fetchSharedConcept e' (randomUUID e) SharedConceptPage_mount
                  (snd (shareBriefConcept e ownerId shareType s w))))
               = Alert ''Shared concept not found or has expired'')"
proof (intro conjI impI)
  assume h: "(\<forall>r\<in>set (brief_batches w). row_id r \<noteq> ownerId \<and> \<not> contains_key (randomUUID e) r)
      \<and> db_fault e ''brief_batches'' = None \<and> db_fault e' ''brief_batches'' = None"
  then have ok: "db_fault e ''brief_batches'' = None" and ok': "db_fault e' ''brief_batches'' = None"
    and absent: "\<forall>r\<in>set (brief_batches w). row_id r \<noteq> ownerId"
    and fresh: "\<forall>r\<in>set (brief_batches w). \<not> contains_key (randomUUID e) r"
    by simp_all
  show "fst (shareBriefBatch e ownerId shareType s w) =
          Inr \<lparr>share_id = randomUUID e, share_url = origin e @ ''/public/brief/'' @ randomUUID e\<rparr>"
    by (rule shareBriefBatch_returns [OF ok])
  show same: "brief_batches (snd (shareBriefBatch e ownerId shareType s w)) = brief_batches w"
    by (simp only: shareBriefBatch_writes [OF ok] set_share_settings_no_owner [OF absent])
  have "filter (contains_key (randomUUID e))
          (brief_batches (snd (shareBriefBatch e ownerId shareType s w))) = []"
    unfolding same using fresh by simp
  from fetchSharedBatch_no_match [OF this ok']
  show "SharedBriefPage_view
          (fst (fetchSharedBatch e' (randomUUID e) SharedBriefPage_mount
             (snd (shareBriefBatch e ownerId shareType s w))))
          = Alert ''Shared content not found or has expired''" .
next
  assume h: "(\<forall>r\<in>set (brief_concepts w). row_id r \<noteq> ownerId \<and> \<not> contains_key (randomUUID e) r)
      \<and> db_fault e ''brief_concepts'' = None \<and> db_fault e' ''brief_concepts'' = None"
  then have ok: "db_fault e ''brief_concepts'' = None" and ok': "db_fault e' ''brief_concepts'' = None"
    and absent: "\<forall>r\<in>set (brief_concepts w). row_id r \<noteq> ownerId"
    and fresh: "\<forall>r\<in>set (brief_concepts w). \<not> contains_key (randomUUID e) r"
    by simp_all
  show "fst (shareBriefConcept e ownerId shareType s w) =
          Inr \<lparr>share_id = randomUUID e, share_url = origin e @ ''/public/concept/'' @ randomUUID e\<rparr>"
    by (rule shareBriefConcept_returns [OF ok])
  show same: "brief_concepts (snd (shareBriefConcept e ownerId shareType s w)) = brief_concepts w"
    by (simp only: shareBriefConcept_writes [OF ok] set_share_settings_no_owner [OF absent])
  have "filter (contains_key (randomUUID e))
          (brief_concepts (snd (shareBriefConcept e ownerId shareType s w))) = []"
    unfolding same using fresh by simp
  from fetchSharedConcept_no_match [OF this ok']
  show "SharedConceptPage_view
          (fst (fetchSharedConcept e' (randomUUID e) SharedConceptPage_mount
             (snd (shareBriefConcept e ownerId shareType s w))))
          = Alert ''Shared concept not found or has expired''" .
qed

theorem share_of_missing_owner_succeeds_witness:
  "map row_id (brief_batches store_1) = [''batch-1'']
   \<and> map row_id (brief_concepts store_1) = [''c42'']
   \<and> fst (shareBriefBatch (browser_at 0) ''no-such-owner'' Link invite store_1) =
       Inr \<lparr>share_id = ''share-B'', share_url = ''https://app.example/public/brief/share-B''\<rparr>
   \<and> brief_batches (snd (shareBriefBatch (browser_at 0) ''no-such-owner'' Link invite store_1))
       = [batch_1]
   \<and> SharedBriefPage_view
       (fst (fetchSharedBatch (browser_at 1) ''share-B'' SharedBriefPage_mount
          (snd (shareBriefBatch (browser_at 0) ''no-such-owner'' Link invite store_1))))
       = Alert ''Shared content not found or has expired''
   \<and> fst (shareBriefConcept (browser_at 0) ''no-such-owner'' Link invite store_1) =
       Inr \<lparr>share_id = ''share-B'', share_url = ''https://app.example/public/concept/share-B''\<rparr>
   \<and> brief_concepts (snd (shareBriefConcept (browser_at 0) ''no-such-owner'' Link invite store_1))
       = [concept_1]
   \<and> SharedConceptPage_view
       (fst (fetchSharedConcept (browser_at 1) ''share-B'' SharedConceptPage_mount
          (snd (shareBriefConcept (browser_at 0) ''no-such-owner'' Link invite store_1))))
       = Alert ''Shared concept not found or has expired''"
proof -
  have hb: "\<forall>r\<in>set (brief_batches store_1).
              row_id r \<noteq> ''no-such-owner'' \<and> \<not> contains_key (randomUUID (browser_at 0)) r"
    by (simp add: store_1_def batch_1_def contains_key_def browser_at_def)
  have hc: "\<forall>r\<in>set (brief_concepts store_1).
              row_id r \<noteq> ''no-such-owner'' \<and> \<not> contains_key (randomUUID (browser_at 0)) r"
    by (simp add: store_1_def concept_1_def contains_key_def browser_at_def)
  have t: "brief_batches store_1 = [batch_1]" "brief_concepts store_1 = [concept_1]"
    by (simp_all add: store_1_def)
  note b = share_of_missing_owner_succeeds [where e = "browser_at 0" and e' = "browser_at 1"
      and w = store_1 and ownerId = "''no-such-owner''" and shareType = Link and s = invite,
      THEN conjunct1, rule_format,
      OF conjI [OF hb conjI [OF browser_at_answers(1) browser_at_answers(1)]]]
  note c = share_of_missing_owner_succeeds [where e = "browser_at 0" and e' = "browser_at 1"
      and w = store_1 and ownerId = "''no-such-owner''" and shareType = Link and s = invite,
      THEN conjunct2, rule_format,
      OF conjI [OF hc conjI [OF browser_at_answers(1) browser_at_answers(1)]]]
  have "map row_id (brief_batches store_1) = [''batch-1'']"
       "map row_id (brief_concepts store_1) = [''c42'']"
    by (simp_all add: store_1_def batch_1_def concept_1_def)
  with b c show ?thesis
    by (simp add: browser_at_answers t)
qed

section \<open>Shares without expiry\<close>

lemma find_after_set_share_settings:
  assumes "find (\<lambda>r. row_id r = ownerId) rows = Some r0"
    and "\<forall>r\<in>set rows. \<not> contains_key k r"
  shows "find (contains_key k) (set_share_settings ownerId [k \<mapsto> x] rows) =
           Some (r0\<lparr>share_settings := Some [k \<mapsto> x]\<rparr>)"
  using assms
proof (induction rows)
  case Nil
  then show ?case by simp
next
  case (Cons a rows)
  show ?case
  proof (cases "row_id a = ownerId")
    case True
    with Cons.prems(1) have "r0 = a" by simp
    with True show ?thesis
      by (simp add: set_share_settings_def contains_key_def)
  next
    case False
    with Cons.prems have "find (\<lambda>r. row_id r = ownerId) rows = Some r0"
      and "\<forall>r\<in>set rows. \<not> contains_key k r" and "\<not> contains_key k a"
      by simp_all
    with Cons.IH False show ?thesis
      by (simp add: set_share_settings_def)
  qed
qed

lemma find_row_id:
  "find (\<lambda>r. row_id r = ownerId) rows = Some r0 \<Longrightarrow> row_id r0 = ownerId"
  by (induction rows) (simp_all split: if_splits)

lemma shareBriefBatch_other_tables:
  "brief_concepts (snd (shareBriefBatch e ownerId shareType s w)) = brief_concepts w"
  "brands_table (snd (shareBriefBatch e ownerId shareType s w)) = brands_table w"
  by (simp_all add: shareBriefBatch_def update_batch_share_settings_def send_invitation_def
      Let_def split: option.splits fetch_result.splits)

lemma settingsRecord_keeps:
  "expires_at (settingsRecord e shareType s) = expires_at s"
  "is_editable (settingsRecord e shareType s) = is_editable s"
  by (simp_all add: settingsRecord_def)

text \<open>
  C4, as the claim states it, fails: a share issued without expiry does not resolve at
  every later time. In the concrete store the concept \<open>c42\<close> is shared as \<open>share-B\<close> with
  no \<open>expires_at\<close> and the link resolves; after \<open>deleteBriefConcept\<close> has removed the
  concept the same link shows the not-found message. Likewise the batch \<open>batch-1\<close> is
  shared as \<open>share-B\<close> with no \<open>expires_at\<close>; after a further share \<open>share-C\<close> has been
  issued for the same batch (which replaces the map, see C1) the link \<open>share-B\<close> shows the
  not-found message.
\<close>

theorem no_expiry_share_lost:
  "expires_at (settingsRecord (browser_at 0) Link invite) = None
   \<and> SharedConceptPage_view
       (fst (fetchSharedConcept (browser_at 7) ''share-B'' SharedConceptPage_mount
          (snd (shareBriefConcept (browser_at 0) ''c42'' Link invite store_1))))
       = ConceptContent
           (concept_1\<lparr>share_settings :=
              Some [''share-B'' \<mapsto> settingsRecord (browser_at 0) Link invite]\<rparr>)
   \<and> fst (deleteBriefConcept (browser_at 8) ''c42''
            (snd (shareBriefConcept (browser_at 0) ''c42'' Link invite store_1))) = Inr ()
   \<and> SharedConceptPage_view
       (fst (fetchSharedConcept (browser_at 9) ''share-B'' SharedConceptPage_mount
          (snd (deleteBriefConcept (browser_at 8) ''c42''
             (snd (shareBriefConcept (browser_at 0) ''c42'' Link invite store_1))))))
       = Alert ''Shared concept not found or has expired''
   \<and> fst (shareBriefBatch ((browser_at 0)\<lparr>randomUUID := ''share-C''\<rparr>) ''batch-1'' Link invite
            (snd (shareBriefBatch (browser_at 0) ''batch-1'' Link invite store_1)))
       = Inr \<lparr>share_id = ''share-C'', share_url = ''https://app.example/public/brief/share-C''\<rparr>
   \<and> SharedBriefPage_view
       (fst (fetchSharedBatch (browser_at 9) ''share-B'' SharedBriefPage_mount
          (snd (shareBriefBatch ((browser_at 0)\<lparr>randomUUID := ''share-C''\<rparr>) ''batch-1'' Link invite
             (snd (shareBriefBatch (browser_at 0) ''batch-1'' Link invite store_1))))))
       = Alert ''Shared content not found or has expired''"
proof -
  let ?s = "settingsRecord (browser_at 0) Link invite"
  let ?c = "concept_1\<lparr>share_settings := Some [''share-B'' \<mapsto> ?s]\<rparr>"
  let ?wc = "snd (shareBriefConcept (browser_at 0) ''c42'' Link invite store_1)"
  let ?wd = "snd (deleteBriefConcept (browser_at 8) ''c42'' ?wc)"
  let ?e2 = "(browser_at 0)\<lparr>randomUUID := ''share-C''\<rparr>"
  let ?wb = "snd (shareBriefBatch (browser_at 0) ''batch-1'' Link invite store_1)"
  let ?wb2 = "snd (shareBriefBatch ?e2 ''batch-1'' Link invite ?wb)"
  have s: "expires_at ?s = None" "\<not> has_expired (browser_at 7) ?s"
    by (simp_all add: settingsRecord_def invite_def has_expired_def)
  have tc: "brief_concepts ?wc = [?c]"
    by (simp add: shareBriefConcept_writes browser_at_answers set_share_settings_def
        store_1_def concept_1_def)
  have hit: "find (contains_key ''share-B'') (brief_concepts ?wc) = Some ?c"
            "settings_of ''share-B'' ?c = Some ?s"
    by (simp_all add: tc contains_key_def settings_of_def)
  have live: "SharedConceptPage_view
       (fst (fetchSharedConcept (browser_at 7) ''share-B'' SharedConceptPage_mount ?wc))
       = ConceptContent ?c"
    by (simp add: fetchSharedConcept_first_match [OF hit browser_at_answers(1)] s)
  have del: "fst (deleteBriefConcept (browser_at 8) ''c42'' ?wc) = Inr ()"
            "brief_concepts ?wd = []"
    by (simp_all add: deleteBriefConcept_def browser_at_answers tc concept_1_def Let_def)
  have gone: "SharedConceptPage_view
       (fst (fetchSharedConcept (browser_at 9) ''share-B'' SharedConceptPage_mount ?wd))
       = Alert ''Shared concept not found or has expired''"
    by (rule fetchSharedConcept_no_match) (simp_all add: del browser_at_answers)
  have f2: "db_fault ?e2 ''brief_batches'' = None" "randomUUID ?e2 = ''share-C''"
           "origin ?e2 = ''https://app.example''"
    by (simp_all add: browser_at_def)
  have tb: "brief_batches ?wb = [batch_1\<lparr>share_settings := Some [''share-B'' \<mapsto> ?s]\<rparr>]"
    by (simp add: shareBriefBatch_writes browser_at_answers set_share_settings_def
        store_1_def batch_1_def)
  have tb2: "brief_batches ?wb2 =
      [batch_1\<lparr>share_settings := Some [''share-C'' \<mapsto> settingsRecord ?e2 Link invite]\<rparr>]"
    by (simp add: shareBriefBatch_writes [OF f2(1)] f2 tb set_share_settings_def batch_1_def)
  have ret2: "fst (shareBriefBatch ?e2 ''batch-1'' Link invite ?wb)
       = Inr \<lparr>share_id = ''share-C'', share_url = ''https://app.example/public/brief/share-C''\<rparr>"
    by (simp add: shareBriefBatch_returns [OF f2(1)] f2)
  have lost: "SharedBriefPage_view
       (fst (fetchSharedBatch (browser_at 9) ''share-B'' SharedBriefPage_mount ?wb2))
       = Alert ''Shared content not found or has expired''"
    by (rule fetchSharedBatch_no_match) (simp_all add: tb2 contains_key_def browser_at_answers)
  show ?thesis
    using s(1) live del(1) gone ret2 lost by simp
qed

text \<open>
  C4, amended. For settings with no \<open>expires_at\<close> (absent or null) the expiry check is
  skipped, whatever the current time and whatever the date parser does. So with the
  backend answering the page's queries: a share whose entry is stored in the record the
  containment query returns first resolves at any time and never fails with the expiry
  message; and a share just issued with such settings, for an existing owner and under
  an identifier no record holds yet, resolves at every clock value in the world the issuer
  leaves behind.
\<close>

theorem no_expiry_always_resolves:
  assumes "expires_at s = None"
  shows
    "(find (contains_key shareId) (brief_batches w) = Some b \<and> settings_of shareId b = Some s
       \<and> db_fault e ''brief_batches'' = None \<and> db_fault e ''brief_concepts'' = None
      \<longrightarrow> \<not> has_expired e s
          \<and> SharedBriefPage_view (fst (fetchSharedBatch e shareId SharedBriefPage_mount w)) =
              BriefContent (embed_brand w b) (is_editable s = Some True)
                (brands (embed_brand w b))
                (sort_key order_in_batch
                   (filter (\<lambda>c. brief_batch_id c = row_id b) (brief_concepts w))))
     \<and> (find (contains_key shareId) (brief_concepts w) = Some c \<and> settings_of shareId c = Some s
         \<and> db_fault e ''brief_concepts'' = None
        \<longrightarrow> SharedConceptPage_view (fst (fetchSharedConcept e shareId SharedConceptPage_mount w)) =
              ConceptContent c)
     \<and> (find (\<lambda>r. row_id r = ownerId) (brief_batches w) = Some b0
         \<and> (\<forall>r\<in>set (brief_batches w). \<not> contains_key (randomUUID e0) r)
         \<and> db_fault e0 ''brief_batches'' = None
         \<and> db_fault e ''brief_batches'' = None \<and> db_fault e ''brief_concepts'' = None
        \<longrightarrow> SharedBriefPage_view
              (fst (fetchSharedBatch e (randomUUID e0) SharedBriefPage_mount
                 (snd (shareBriefBatch e0 ownerId shareType s w)))) =
              BriefContent
                (embed_brand w
                   (b0\<lparr>share_settings :=
                         Some [randomUUID e0 \<mapsto> settingsRecord e0 shareType s]\<rparr>))
                (is_editable s = Some True)
                (brands (embed_brand w b0))
                (sort_key order_in_batch
                   (filter (\<lambda>c. brief_batch_id c = ownerId) (brief_concepts w))))
     \<and> (find (\<lambda>r. row_id r = ownerId) (brief_concepts w) = Some c0
         \<and> (\<forall>r\<in>set (brief_concepts w). \<not> contains_key (randomUUID e0) r)
         \<and> db_fault e0 ''brief_concepts'' = None \<and> db_fault e ''brief_concepts'' = None
        \<longrightarrow> SharedConceptPage_view
              (fst (fetchSharedConcept e (randomUUID e0) SharedConceptPage_mount
                 (snd (shareBriefConcept e0 ownerId shareType s w)))) =
              ConceptContent
                (c0\<lparr>share_settings :=
                      Some [randomUUID e0 \<mapsto> settingsRecord e0 shareType s]\<rparr>))"
proof -
  let ?k = "randomUUID e0"
  let ?x = "settingsRecord e0 shareType s"
  have live: "\<not> has_expired e s" "\<not> has_expired e ?x"
    using assms by (simp_all add: has_expired_def settingsRecord_keeps)
  have stored_batch:
    "find (contains_key shareId) (brief_batches w) = Some b \<and> settings_of shareId b = Some s
       \<and> db_fault e ''brief_batches'' = None \<and> db_fault e ''brief_concepts'' = None
      \<longrightarrow> \<not> has_expired e s
          \<and> SharedBriefPage_view (fst (fetchSharedBatch e shareId SharedBriefPage_mount w)) =
              BriefContent (embed_brand w b) (is_editable s = Some True)
                (brands (embed_brand w b))
                (sort_key order_in_batch
                   (filter (\<lambda>c. brief_batch_id c = row_id b) (brief_concepts w)))"
    using live(1) by (simp add: fetchSharedBatch_first_match)
  have stored_concept:
    "find (contains_key shareId) (brief_concepts w) = Some c \<and> settings_of shareId c = Some s
       \<and> db_fault e ''brief_concepts'' = None
      \<longrightarrow> SharedConceptPage_view (fst (fetchSharedConcept e shareId SharedConceptPage_mount w)) =
            ConceptContent c"
    using live(1) by (simp add: fetchSharedConcept_first_match)
  have issued_batch:
    "find (\<lambda>r. row_id r = ownerId) (brief_batches w) = Some b0
       \<and> (\<forall>r\<in>set (brief_batches w). \<not> contains_key ?k r)
       \<and> db_fault e0 ''brief_batches'' = None
       \<and> db_fault e ''brief_batches'' = None \<and> db_fault e ''brief_concepts'' = None
      \<longrightarrow> SharedBriefPage_view
            (fst (fetchSharedBatch e ?k SharedBriefPage_mount
               (snd (shareBriefBatch e0 ownerId shareType s w)))) =
            BriefContent
              (embed_brand w (b0\<lparr>share_settings := Some [?k \<mapsto> ?x]\<rparr>))
              (is_editable s = Some True)
              (brands (embed_brand w b0))
              (sort_key order_in_batch
                 (filter (\<lambda>c. brief_batch_id c = ownerId) (brief_concepts w)))"
  proof
    let ?w' = "snd (shareBriefBatch e0 ownerId shareType s w)"
    let ?b' = "b0\<lparr>share_settings := Some [?k \<mapsto> ?x]\<rparr>"
    assume "find (\<lambda>r. row_id r = ownerId) (brief_batches w) = Some b0
       \<and> (\<forall>r\<in>set (brief_batches w). \<not> contains_key ?k r)
       \<and> db_fault e0 ''brief_batches'' = None
       \<and> db_fault e ''brief_batches'' = None \<and> db_fault e ''brief_concepts'' = None"
    then have owner: "find (\<lambda>r. row_id r = ownerId) (brief_batches w) = Some b0"
      and fresh: "\<forall>r\<in>set (brief_batches w). \<not> contains_key ?k r"
      and ok0: "db_fault e0 ''brief_batches'' = None"
      and ok: "db_fault e ''brief_batches'' = None" "db_fault e ''brief_concepts'' = None"
      by simp_all
    have hit: "find (contains_key ?k) (brief_batches ?w') = Some ?b'"
      unfolding shareBriefBatch_writes [OF ok0]
      by (rule find_after_set_share_settings [OF owner fresh])
    have entry: "settings_of ?k ?b' = Some ?x"
      by (simp add: settings_of_def)
    have id: "row_id b0 = ownerId"
      by (rule find_row_id [OF owner])
    from fetchSharedBatch_first_match [OF hit entry ok]
    show "SharedBriefPage_view (fst (fetchSharedBatch e ?k SharedBriefPage_mount ?w')) =
            BriefContent (embed_brand w ?b') (is_editable s = Some True)
              (brands (embed_brand w b0))
              (sort_key order_in_batch
                 (filter (\<lambda>c. brief_batch_id c = ownerId) (brief_concepts w)))"
      using live(2)
      by (simp add: shareBriefBatch_other_tables settingsRecord_keeps id embed_brand_def)
  qed
  have issued_concept:
    "find (\<lambda>r. row_id r = ownerId) (brief_concepts w) = Some c0
       \<and> (\<forall>r\<in>set (brief_concepts w). \<not> contains_key ?k r)
       \<and> db_fault e0 ''brief_concepts'' = None \<and> db_fault e ''brief_concepts'' = None
      \<longrightarrow> SharedConceptPage_view
            (fst (fetchSharedConcept e ?k SharedConceptPage_mount
               (snd (shareBriefConcept e0 ownerId shareType s w)))) =
            ConceptContent (c0\<lparr>share_settings := Some [?k \<mapsto> ?x]\<rparr>)"
  proof
    let ?w' = "snd (shareBriefConcept e0 ownerId shareType s w)"
    let ?c' = "c0\<lparr>share_settings := Some [?k \<mapsto> ?x]\<rparr>"
    assume "find (\<lambda>r. row_id r = ownerId) (brief_concepts w) = Some c0
       \<and> (\<forall>r\<in>set (brief_concepts w). \<not> contains_key ?k r)
       \<and> db_fault e0 ''brief_concepts'' = None \<and> db_fault e ''brief_concepts'' = None"
    then have owner: "find (\<lambda>r. row_id r = ownerId) (brief_concepts w) = Some c0"
      and fresh: "\<forall>r\<in>set (brief_concepts w). \<not> contains_key ?k r"
      and ok0: "db_fault e0 ''brief_concepts'' = None"
      and ok: "db_fault e ''brief_concepts'' = None"
      by simp_all
    have hit: "find (contains_key ?k) (brief_concepts ?w') = Some ?c'"
      unfolding shareBriefConcept_writes [OF ok0]
      by (rule find_after_set_share_settings [OF owner fresh])
    have entry: "settings_of ?k ?c' = Some ?x"
      by (simp add: settings_of_def)
    from fetchSharedConcept_first_match [OF hit entry ok]
    show "SharedConceptPage_view (fst (fetchSharedConcept e ?k SharedConceptPage_mount ?w')) =
            ConceptContent ?c'"
      using live(2) by simp
  qed
  from stored_batch stored_concept issued_batch issued_concept
  show ?thesis by (intro conjI)
qed

text \<open>
  The witness issues such a share for the concrete batch and concept and resolves it a
  thousand years of milliseconds later.
\<close>

theorem no_expiry_always_resolves_witness:
  "expires_at invite = None
   \<and> find (\<lambda>r. row_id r = ''batch-1'') (brief_batches store_1) = Some batch_1
   \<and> find (\<lambda>r. row_id r = ''c42'') (brief_concepts store_1) = Some concept_1
   \<and> map (contains_key ''share-B'') (brief_batches store_1) = [False]
   \<and> map (contains_key ''share-B'') (brief_concepts store_1) = [False]
   \<and> SharedBriefPage_view
       (fst (fetchSharedBatch (browser_at 31536000000000) ''share-B'' SharedBriefPage_mount
          (snd (shareBriefBatch (browser_at 0) ''batch-1'' Link invite store_1))))
       = BriefContent
           \<lparr>row_id = ''batch-1'',
            share_settings = Some [''share-B'' \<mapsto> settingsRecord (browser_at 0) Link invite],
            name = ''Spring launch'', brand_id = ''brand-1'', brands = Some brand_1\<rparr>
           True (Some brand_1) [concept_1]
   \<and> SharedConceptPage_view
       (fst (fetchSharedConcept (browser_at 31536000000000) ''share-B'' SharedConceptPage_mount
          (snd (shareBriefConcept (browser_at 0) ''c42'' Link invite store_1))))
       = ConceptContent
           \<lparr>row_id = ''c42'',
            share_settings = Some [''share-B'' \<mapsto> settingsRecord (browser_at 0) Link invite],
            brief_batch_id = ''batch-1'', concept_title = ''Hook'', order_in_batch = 1\<rparr>"
proof -
  let ?s = "settingsRecord (browser_at 0) Link invite"
  let ?b = "batch_1\<lparr>share_settings := Some [''share-B'' \<mapsto> ?s]\<rparr>"
  let ?c = "concept_1\<lparr>share_settings := Some [''share-B'' \<mapsto> ?s]\<rparr>"
  let ?wb = "snd (shareBriefBatch (browser_at 0) ''batch-1'' Link invite store_1)"
  let ?wc = "snd (shareBriefConcept (browser_at 0) ''c42'' Link invite store_1)"
  let ?late = "browser_at 31536000000000"
  have none: "expires_at invite = None" "expires_at ?s = None" "is_editable invite = Some True"
    by (simp_all add: settingsRecord_def invite_def)
  have owner: "find (\<lambda>r. row_id r = ''batch-1'') (brief_batches store_1) = Some batch_1"
              "find (\<lambda>r. row_id r = ''c42'') (brief_concepts store_1) = Some concept_1"
    by (simp_all add: store_1_def batch_1_def concept_1_def)
  have fresh: "\<forall>r\<in>set (brief_batches store_1). \<not> contains_key (randomUUID (browser_at 0)) r"
              "\<forall>r\<in>set (brief_concepts store_1). \<not> contains_key (randomUUID (browser_at 0)) r"
    by (simp_all add: store_1_def batch_1_def concept_1_def contains_key_def browser_at_def)
  have rows: "map (contains_key ''share-B'') (brief_batches store_1) = [False]"
             "map (contains_key ''share-B'') (brief_concepts store_1) = [False]"
    by (simp_all add: store_1_def batch_1_def concept_1_def contains_key_def)
  have tb: "brief_batches ?wb = [?b]" "brief_concepts ?wb = [concept_1]"
    by (simp_all add: shareBriefBatch_writes shareBriefBatch_other_tables browser_at_answers
        set_share_settings_def store_1_def batch_1_def)
  have tc: "brief_concepts ?wc = [?c]"
    by (simp add: shareBriefConcept_writes browser_at_answers set_share_settings_def
        store_1_def concept_1_def)
  have hit: "find (contains_key ''share-B'') (brief_batches ?wb) = Some ?b"
            "settings_of ''share-B'' ?b = Some ?s"
            "find (contains_key ''share-B'') (brief_concepts ?wc) = Some ?c"
            "settings_of ''share-B'' ?c = Some ?s"
    by (simp_all add: tb tc contains_key_def settings_of_def)
  note issued = no_expiry_always_resolves [where s = invite and e = ?late and e0 = "browser_at 0"
      and w = store_1 and ownerId = "''batch-1''" and b0 = batch_1 and shareType = Link,
      OF none(1), THEN conjunct2, THEN conjunct2, THEN conjunct1, rule_format,
      OF conjI [OF owner(1) conjI [OF fresh(1) conjI [OF browser_at_answers(1)
        conjI [OF browser_at_answers(1) browser_at_answers(1)]]]]]
    no_expiry_always_resolves [where s = invite and e = ?late and e0 = "browser_at 0"
      and w = store_1 and ownerId = "''c42''" and c0 = concept_1 and shareType = Link,
      OF none(1), THEN conjunct2, THEN conjunct2, THEN conjunct2, rule_format,
      OF conjI [OF owner(2) conjI [OF fresh(2) conjI [OF browser_at_answers(1)
        browser_at_answers(1)]]]]
  note stored = no_expiry_always_resolves [where s = ?s and e = ?late and shareId = "''share-B''"
      and w = ?wb and b = ?b, OF none(2), THEN conjunct1, rule_format,
      OF conjI [OF hit(1) conjI [OF hit(2) conjI [OF browser_at_answers(1) browser_at_answers(1)]]]]
    no_expiry_always_resolves [where s = ?s and e = ?late and shareId = "''share-B''"
      and w = ?wc and c = ?c, OF none(2), THEN conjunct2, THEN conjunct1, rule_format,
      OF conjI [OF hit(3) conjI [OF hit(4) browser_at_answers(1)]]]
  have "SharedBriefPage_view (fst (fetchSharedBatch ?late ''share-B'' SharedBriefPage_mount ?wb))
       = BriefContent
           \<lparr>row_id = ''batch-1'', share_settings = Some [''share-B'' \<mapsto> ?s],
            name = ''Spring launch'', brand_id = ''brand-1'', brands = Some brand_1\<rparr>
           True (Some brand_1) [concept_1]"
    using issued(1) stored(1)
    by (simp add: browser_at_answers none embed_brand_def store_1_def batch_1_def concept_1_def
        brand_1_def)
  moreover have "SharedConceptPage_view
       (fst (fetchSharedConcept ?late ''share-B'' SharedConceptPage_mount ?wc))
       = ConceptContent
           \<lparr>row_id = ''c42'', share_settings = Some [''share-B'' \<mapsto> ?s],
            brief_batch_id = ''batch-1'', concept_title = ''Hook'', order_in_batch = 1\<rparr>"
    using issued(2) stored(2)
    by (simp add: browser_at_answers concept_1_def)
  ultimately show ?thesis
    using none(1) owner rows by simp
qed

section \<open>The effective permission\<close>

text \<open>
  C5, as the claim states it, fails on the concept page. The concept \<open>c42\<close> is shared as
  \<open>share-B\<close> with \<open>is_editable: true\<close>; resolving the link succeeds, and what the page holds
  afterwards is the concept and nothing else: no permission is derived from the settings,
  and the page offers no editing.
\<close>

theorem concept_page_yields_no_permission:
  "is_editable (settingsRecord (browser_at 0) Link invite) = Some True
   \<and> fst (fetchSharedConcept (browser_at 7) ''share-B'' SharedConceptPage_mount
          (snd (shareBriefConcept (browser_at 0) ''c42'' Link invite store_1)))
       = \<lparr>loading = False, error = None,
          concept = Some (concept_1\<lparr>share_settings :=
             Some [''share-B'' \<mapsto> settingsRecord (browser_at 0) Link invite]\<rparr>)\<rparr>
   \<and> \<not> offers_editing
         (SharedConceptPage_view
            (fst (fetchSharedConcept (browser_at 7) ''share-B'' SharedConceptPage_mount
               (snd (shareBriefConcept (browser_at 0) ''c42'' Link invite store_1)))))"
proof -
  let ?s = "settingsRecord (browser_at 0) Link invite"
  let ?c = "concept_1\<lparr>share_settings := Some [''share-B'' \<mapsto> ?s]\<rparr>"
  let ?wc = "snd (shareBriefConcept (browser_at 0) ''c42'' Link invite store_1)"
  have s: "is_editable ?s = Some True" "\<not> has_expired (browser_at 7) ?s"
    by (simp_all add: settingsRecord_def invite_def has_expired_def)
  have tc: "filter (contains_key ''share-B'') (brief_concepts ?wc) = [?c]"
    by (simp add: shareBriefConcept_writes browser_at_answers set_share_settings_def
        store_1_def concept_1_def contains_key_def)
  have st: "fst (fetchSharedConcept (browser_at 7) ''share-B'' SharedConceptPage_mount ?wc)
      = \<lparr>loading = False, error = None, concept = Some ?c\<rparr>"
    using s(2)
    by (simp add: fetchSharedConcept_def select_concepts_contains_def respond_ok
        browser_at_answers tc fetchSharedConcept_found_def settings_of_def
        SharedConceptPage_mount_def)
  show ?thesis
    by (simp add: s(1) st SharedConceptPage_view_def message_def offers_editing_def)
qed

text \<open>
  C5, amended. On the batch page, whenever the resolution gets past the expiry check, the
  page's \<open>isEditable\<close> is true exactly when the stored settings hold \<open>is_editable: true\<close>;
  with \<open>is_editable\<close> absent, null or false the page is view-only. This holds from any
  earlier page state, and from a fresh mount with both queries answered the rendered page
  offers editing under exactly that condition. On the concept page a successful resolution
  only stores the concept: whatever \<open>is_editable\<close> is, the rendered page offers no editing.
\<close>

theorem editable_iff_is_editable_true:
  assumes "\<not> has_expired e s"
  shows
    "(find (contains_key shareId) (brief_batches w) = Some b \<and> settings_of shareId b = Some s
       \<and> db_fault e ''brief_batches'' = None
      \<longrightarrow> isEditable (fst (fetchSharedBatch e shareId st w)) = (is_editable s = Some True)
          \<and> ((is_editable s = None \<or> is_editable s = Some False)
               = (\<not> isEditable (fst (fetchSharedBatch e shareId st w)))))
     \<and> (find (contains_key shareId) (brief_batches w) = Some b \<and> settings_of shareId b = Some s
         \<and> db_fault e ''brief_batches'' = None \<and> db_fault e ''brief_concepts'' = None
        \<longrightarrow> offers_editing
              (SharedBriefPage_view (fst (fetchSharedBatch e shareId SharedBriefPage_mount w)))
            = (is_editable s = Some True))
     \<and> (find (contains_key shareId) (brief_concepts w) = Some c \<and> settings_of shareId c = Some s
         \<and> db_fault e ''brief_concepts'' = None
        \<longrightarrow> fst (fetchSharedConcept e shareId ct w) = ct\<lparr>loading := False, concept := Some c\<rparr>
            \<and> \<not> offers_editing
                  (SharedConceptPage_view
                     (fst (fetchSharedConcept e shareId SharedConceptPage_mount w))))"
proof -
  have state:
    "find (contains_key shareId) (brief_batches w) = Some b \<and> settings_of shareId b = Some s
       \<and> db_fault e ''brief_batches'' = None
      \<longrightarrow> isEditable (fst (fetchSharedBatch e shareId st w)) = (is_editable s = Some True)
          \<and> ((is_editable s = None \<or> is_editable s = Some False)
               = (\<not> isEditable (fst (fetchSharedBatch e shareId st w))))"
  proof
    assume "find (contains_key shareId) (brief_batches w) = Some b \<and> settings_of shareId b = Some s
       \<and> db_fault e ''brief_batches'' = None"
    then have hit: "find (contains_key shareId) (brief_batches w) = Some b"
      and entry: "settings_of shareId b = Some s"
      and ok: "db_fault e ''brief_batches'' = None"
      by simp_all
    from find_filter_Cons [OF hit]
    obtain rest where rows: "filter (contains_key shareId) (brief_batches w) = b # rest" ..
    have eq: "isEditable (fst (fetchSharedBatch e shareId st w)) = (is_editable s = Some True)"
      using assms entry ok
      by (simp add: fetchSharedBatch_def select_batches_contains_def respond_ok rows
          fetchSharedBatch_found_def select_concepts_of_batch_def fetchSharedBatch_concepts_def
          caught_def respond_def Let_def split: option.splits)
    show "isEditable (fst (fetchSharedBatch e shareId st w)) = (is_editable s = Some True)
          \<and> ((is_editable s = None \<or> is_editable s = Some False)
               = (\<not> isEditable (fst (fetchSharedBatch e shareId st w))))"
      unfolding eq by (cases "is_editable s") auto
  qed
  have rendered:
    "find (contains_key shareId) (brief_batches w) = Some b \<and> settings_of shareId b = Some s
       \<and> db_fault e ''brief_batches'' = None \<and> db_fault e ''brief_concepts'' = None
      \<longrightarrow> offers_editing
            (SharedBriefPage_view (fst (fetchSharedBatch e shareId SharedBriefPage_mount w)))
          = (is_editable s = Some True)"
    using assms by (simp add: fetchSharedBatch_first_match offers_editing_def)
  have concept_page:
    "find (contains_key shareId) (brief_concepts w) = Some c \<and> settings_of shareId c = Some s
       \<and> db_fault e ''brief_concepts'' = None
      \<longrightarrow> fst (fetchSharedConcept e shareId ct w) = ct\<lparr>loading := False, concept := Some c\<rparr>
          \<and> \<not> offers_editing
                (SharedConceptPage_view
                   (fst (fetchSharedConcept e shareId SharedConceptPage_mount w)))"
  proof
    assume "find (contains_key shareId) (brief_concepts w) = Some c \<and> settings_of shareId c = Some s
       \<and> db_fault e ''brief_concepts'' = None"
    then have hit: "find (contains_key shareId) (brief_concepts w) = Some c"
      and entry: "settings_of shareId c = Some s"
      and ok: "db_fault e ''brief_concepts'' = None"
      by simp_all
    from find_filter_Cons [OF hit]
    obtain rest where rows: "filter (contains_key shareId) (brief_concepts w) = c # rest" ..
    have "fst (fetchSharedConcept e shareId ct w) = ct\<lparr>loading := False, concept := Some c\<rparr>"
      using assms entry ok
      by (simp add: fetchSharedConcept_def select_concepts_contains_def respond_ok rows
          fetchSharedConcept_found_def)
    moreover have "\<not> offers_editing
        (SharedConceptPage_view (fst (fetchSharedConcept e shareId SharedConceptPage_mount w)))"
      using assms by (simp add: fetchSharedConcept_first_match [OF hit entry ok] offers_editing_def)
    ultimately show "fst (fetchSharedConcept e shareId ct w) = ct\<lparr>loading := False, concept := Some c\<rparr>
          \<and> \<not> offers_editing
                (SharedConceptPage_view
                   (fst (fetchSharedConcept e shareId SharedConceptPage_mount w)))"
      by simp
  qed
  from state rendered concept_page show ?thesis by (intro conjI)
qed

theorem editable_iff_is_editable_true_witness:
  "\<not> has_expired (browser_at 7) share_A
   \<and> \<not> isEditable (fst (fetchSharedBatch (browser_at 7) ''share-A'' SharedBriefPage_mount store_1))
   \<and> \<not> offers_editing
         (SharedBriefPage_view
            (fst (fetchSharedBatch (browser_at 7) ''share-A'' SharedBriefPage_mount store_1)))
   \<and> isEditable
       (fst (fetchSharedBatch (browser_at 7) ''share-B'' SharedBriefPage_mount
          (snd (shareBriefBatch (browser_at 0) ''batch-1'' Link invite store_1))))
   \<and> offers_editing
       (SharedBriefPage_view
          (fst (fetchSharedBatch (browser_at 7) ''share-B'' SharedBriefPage_mount
             (snd (shareBriefBatch (browser_at 0) ''batch-1'' Link invite store_1)))))
   \<and> fst (fetchSharedConcept (browser_at 7) ''share-A'' SharedConceptPage_mount store_1)
       = \<lparr>loading = False, error = None, concept = Some concept_1\<rparr>
   \<and> \<not> offers_editing
         (SharedConceptPage_view
            (fst (fetchSharedConcept (browser_at 7) ''share-A'' SharedConceptPage_mount store_1)))"
proof -
  let ?s = "settingsRecord (browser_at 0) Link invite"
  let ?b = "batch_1\<lparr>share_settings := Some [''share-B'' \<mapsto> ?s]\<rparr>"
  let ?wb = "snd (shareBriefBatch (browser_at 0) ''batch-1'' Link invite store_1)"
  let ?e = "browser_at 7"
  have live: "\<not> has_expired ?e share_A" "\<not> has_expired ?e ?s"
    by (simp_all add: has_expired_def share_A_def browser_at_def settingsRecord_def invite_def)
  have tb: "brief_batches ?wb = [?b]"
    by (simp add: shareBriefBatch_writes browser_at_answers set_share_settings_def
        store_1_def batch_1_def)
  have hit: "find (contains_key ''share-B'') (brief_batches ?wb) = Some ?b"
            "settings_of ''share-B'' ?b = Some ?s"
    by (simp_all add: tb contains_key_def settings_of_def)
  have v: "is_editable share_A = Some False" "is_editable ?s = Some True"
    by (simp_all add: share_A_def settingsRecord_def invite_def)
  note a = editable_iff_is_editable_true [where e = ?e and s = share_A and shareId = "''share-A''"
      and w = store_1 and b = batch_1 and c = concept_1 and st = SharedBriefPage_mount
      and ct = SharedConceptPage_mount, OF live(1)]
  note b = editable_iff_is_editable_true [where e = ?e and s = ?s and shareId = "''share-B''"
      and w = ?wb and b = ?b and st = SharedBriefPage_mount, OF live(2)]
  have batch_A: "\<not> isEditable (fst (fetchSharedBatch ?e ''share-A'' SharedBriefPage_mount store_1))
      \<and> \<not> offers_editing
            (SharedBriefPage_view (fst (fetchSharedBatch ?e ''share-A'' SharedBriefPage_mount store_1)))"
    using a by (simp add: v store_1_lookup browser_at_answers)
  have batch_B: "isEditable (fst (fetchSharedBatch ?e ''share-B'' SharedBriefPage_mount ?wb))
      \<and> offers_editing
            (SharedBriefPage_view (fst (fetchSharedBatch ?e ''share-B'' SharedBriefPage_mount ?wb)))"
    using b by (simp add: v hit browser_at_answers)
  have concept_state: "fst (fetchSharedConcept ?e ''share-A'' SharedConceptPage_mount store_1)
      = \<lparr>loading = False, error = None, concept = Some concept_1\<rparr>"
    using a by (simp add: store_1_lookup browser_at_answers SharedConceptPage_mount_def)
  have concept_view: "\<not> offers_editing
      (SharedConceptPage_view (fst (fetchSharedConcept ?e ''share-A'' SharedConceptPage_mount store_1)))"
    using a
    by (simp add: store_1_lookup browser_at_answers SharedConceptPage_view_def
        SharedConceptPage_mount_def message_def offers_editing_def)
  from live(1) batch_A batch_B concept_state concept_view show ?thesis
    by blast
qed

section \<open>More than one matching record\<close>

text \<open>
  C7. When the containment query answers with more than one record, the page goes on with
  the first of them only. It does exactly what it does when the query answers with that
  record alone, and the record it ends up showing is the first one or whatever it showed
  before, never a later one. When the first record's settings under the identifier have
  not expired (and, on the batch page, the query for the concepts is answered), the
  resolution does not fail: the page state it leaves has the first record as its batch or
  concept, the permission and the concepts of that record, and the error untouched. The
  same holds of the whole fetch on a world in which two or more rows hold the identifier:
  the page shows the first of them.
\<close>

theorem multi_match_takes_first:
  "fetchSharedBatch_found e shareId \<lparr>resp_data = Some (r # r' # rs), resp_error = None\<rparr> st w
     = fetchSharedBatch_found e shareId \<lparr>resp_data = Some [r], resp_error = None\<rparr> st w
   \<and> (batch (fst (fetchSharedBatch_found e shareId
                    \<lparr>resp_data = Some (r # r' # rs), resp_error = None\<rparr> st w)) = Some r
       \<or> batch (fst (fetchSharedBatch_found e shareId
                    \<lparr>resp_data = Some (r # r' # rs), resp_error = None\<rparr> st w)) = batch st)
   \<and> fetchSharedConcept_found e shareId \<lparr>resp_data = Some (c # c' # cs), resp_error = None\<rparr> ct w
     = fetchSharedConcept_found e shareId \<lparr>resp_data = Some [c], resp_error = None\<rparr> ct w
   \<and> (concept (fst (fetchSharedConcept_found e shareId
                    \<lparr>resp_data = Some (c # c' # cs), resp_error = None\<rparr> ct w)) = Some c
       \<or> concept (fst (fetchSharedConcept_found e shareId
                    \<lparr>resp_data = Some (c # c' # cs), resp_error = None\<rparr> ct w)) = concept ct)
   \<and> (settings_of shareId r = Some s \<and> \<not> has_expired e s \<and> db_fault e ''brief_concepts'' = None
       \<longrightarrow> fst (fetchSharedBatch_found e shareId
                 \<lparr>resp_data = Some (r # r' # rs), resp_error = None\<rparr> st w)
           = st\<lparr>isEditable := (is_editable s = Some True),
                brand := (case brands r of Some brandData \<Rightarrow> Some brandData | None \<Rightarrow> brand st),
                batch := Some r,
                concepts := sort_key order_in_batch
                              (filter (\<lambda>k. brief_batch_id k = row_id r) (brief_concepts w)),
                loading := False\<rparr>)
   \<and> (settings_of shareId c = Some s' \<and> \<not> has_expired e s'
       \<longrightarrow> fst (fetchSharedConcept_found e shareId
                 \<lparr>resp_data = Some (c # c' # cs), resp_error = None\<rparr> ct w)
           = ct\<lparr>concept := Some c, loading := False\<rparr>)
   \<and> (filter (contains_key shareId) (brief_batches w) = b # b' # bs
        \<and> settings_of shareId b = Some s \<and> \<not> has_expired e s
        \<and> db_fault e ''brief_batches'' = None \<and> db_fault e ''brief_concepts'' = None
       \<longrightarrow> SharedBriefPage_view (fst (fetchSharedBatch e shareId SharedBriefPage_mount w)) =
             BriefContent (embed_brand w b) (is_editable s = Some True)
               (brands (embed_brand w b))
               (sort_key order_in_batch
                  (filter (\<lambda>k. brief_batch_id k = row_id b) (brief_concepts w))))
   \<and> (filter (contains_key shareId) (brief_concepts w) = c # c' # cs
        \<and> settings_of shareId c = Some s' \<and> \<not> has_expired e s'
        \<and> db_fault e ''brief_concepts'' = None
       \<longrightarrow> SharedConceptPage_view (fst (fetchSharedConcept e shareId SharedConceptPage_mount w)) =
             ConceptContent c)"
proof -
  have same_b: "fetchSharedBatch_found e shareId
        \<lparr>resp_data = Some (r # r' # rs), resp_error = None\<rparr> st w
      = fetchSharedBatch_found e shareId \<lparr>resp_data = Some [r], resp_error = None\<rparr> st w"
    by (simp add: fetchSharedBatch_found_def)
  have same_c: "fetchSharedConcept_found e shareId
        \<lparr>resp_data = Some (c # c' # cs), resp_error = None\<rparr> ct w
      = fetchSharedConcept_found e shareId \<lparr>resp_data = Some [c], resp_error = None\<rparr> ct w"
    by (simp add: fetchSharedConcept_found_def)
  have only_b: "batch (fst (fetchSharedBatch_found e shareId
                    \<lparr>resp_data = Some (r # r' # rs), resp_error = None\<rparr> st w)) = Some r
       \<or> batch (fst (fetchSharedBatch_found e shareId
                    \<lparr>resp_data = Some (r # r' # rs), resp_error = None\<rparr> st w)) = batch st"
    by (simp add: fetchSharedBatch_found_def select_concepts_of_batch_def
        fetchSharedBatch_concepts_def give_up_def caught_def Let_def split: option.splits)
  have only_c: "concept (fst (fetchSharedConcept_found e shareId
                    \<lparr>resp_data = Some (c # c' # cs), resp_error = None\<rparr> ct w)) = Some c
       \<or> concept (fst (fetchSharedConcept_found e shareId
                    \<lparr>resp_data = Some (c # c' # cs), resp_error = None\<rparr> ct w)) = concept ct"
    by (simp add: fetchSharedConcept_found_def give_up_def split: option.splits)
  have goes_b: "settings_of shareId r = Some s \<and> \<not> has_expired e s
        \<and> db_fault e ''brief_concepts'' = None
       \<longrightarrow> fst (fetchSharedBatch_found e shareId
                 \<lparr>resp_data = Some (r # r' # rs), resp_error = None\<rparr> st w)
           = st\<lparr>isEditable := (is_editable s = Some True),
                brand := (case brands r of Some brandData \<Rightarrow> Some brandData | None \<Rightarrow> brand st),
                batch := Some r,
                concepts := sort_key order_in_batch
                              (filter (\<lambda>k. brief_batch_id k = row_id r) (brief_concepts w)),
                loading := False\<rparr>"
    by (simp add: fetchSharedBatch_found_def select_concepts_of_batch_def respond_ok
        fetchSharedBatch_concepts_def Let_def split: option.splits)
  have goes_c: "settings_of shareId c = Some s' \<and> \<not> has_expired e s'
       \<longrightarrow> fst (fetchSharedConcept_found e shareId
                 \<lparr>resp_data = Some (c # c' # cs), resp_error = None\<rparr> ct w)
           = ct\<lparr>concept := Some c, loading := False\<rparr>"
    by (simp add: fetchSharedConcept_found_def)
  have world_b: "filter (contains_key shareId) (brief_batches w) = b # b' # bs
        \<and> settings_of shareId b = Some s \<and> \<not> has_expired e s
        \<and> db_fault e ''brief_batches'' = None \<and> db_fault e ''brief_concepts'' = None
       \<longrightarrow> SharedBriefPage_view (fst (fetchSharedBatch e shareId SharedBriefPage_mount w)) =
             BriefContent (embed_brand w b) (is_editable s = Some True)
               (brands (embed_brand w b))
               (sort_key order_in_batch
                  (filter (\<lambda>k. brief_batch_id k = row_id b) (brief_concepts w)))"
    by (simp add: fetchSharedBatch_def select_batches_contains_def respond_ok
        fetchSharedBatch_found_def select_concepts_of_batch_def fetchSharedBatch_concepts_def
        SharedBriefPage_view_def SharedBriefPage_mount_def message_def Let_def
        split: option.splits)
  have world_c: "filter (contains_key shareId) (brief_concepts w) = c # c' # cs
        \<and> settings_of shareId c = Some s' \<and> \<not> has_expired e s'
        \<and> db_fault e ''brief_concepts'' = None
       \<longrightarrow> SharedConceptPage_view (fst (fetchSharedConcept e shareId SharedConceptPage_mount w)) =
             ConceptContent c"
    by (simp add: fetchSharedConcept_def select_concepts_contains_def respond_ok
        fetchSharedConcept_found_def SharedConceptPage_view_def SharedConceptPage_mount_def
        message_def)
  from same_b only_b same_c only_c goes_b goes_c world_b world_c
  show ?thesis by (intro conjI)
qed

lemma store_2_matches:
  "filter (contains_key ''share-A'') (brief_batches store_2) = [batch_1, batch_2]"
  "filter (contains_key ''share-A'') (brief_concepts store_2) = [concept_1, concept_2]"
  by (simp_all add: store_2_def batch_1_def batch_2_def concept_1_def concept_2_def
      contains_key_def)

theorem multi_match_takes_first_witness:
  "filter (contains_key ''share-A'') (brief_batches store_2) = [batch_1, batch_2]
   \<and> filter (contains_key ''share-A'') (brief_concepts store_2) = [concept_1, concept_2]
   \<and> SharedBriefPage_view
       (fst (fetchSharedBatch (browser_at 7) ''share-A'' SharedBriefPage_mount store_2))
       = BriefContent (embed_brand store_2 batch_1) False (Some brand_1) [concept_1]
   \<and> SharedConceptPage_view
       (fst (fetchSharedConcept (browser_at 7) ''share-A'' SharedConceptPage_mount store_2))
       = ConceptContent concept_1
   \<and> fst (fetchSharedBatch_found (browser_at 7) ''share-A''
            \<lparr>resp_data = Some [embed_brand store_2 batch_1, embed_brand store_2 batch_2],
             resp_error = None\<rparr> SharedBriefPage_mount store_2)
       = \<lparr>loading = False, error = None, brand = Some brand_1,
          batch = Some (embed_brand store_2 batch_1), concepts = [concept_1],
          isEditable = False\<rparr>
   \<and> fst (fetchSharedConcept_found (browser_at 7) ''share-A''
            \<lparr>resp_data = Some [concept_1, concept_2], resp_error = None\<rparr>
            SharedConceptPage_mount store_2)
       = \<lparr>loading = False, error = None, concept = Some concept_1\<rparr>"
proof -
  let ?e = "browser_at 7"
  have live: "\<not> has_expired ?e share_A" "is_editable share_A = Some False"
    by (simp_all add: has_expired_def share_A_def browser_at_def)
  have entry: "settings_of ''share-A'' batch_1 = Some share_A"
              "settings_of ''share-A'' concept_1 = Some share_A"
              "settings_of ''share-A'' (embed_brand store_2 batch_1) = Some share_A"
    by (simp_all add: store_1_lookup)
  have page: "brands (embed_brand store_2 batch_1) = Some brand_1"
    "sort_key order_in_batch
       (filter (\<lambda>k. brief_batch_id k = row_id batch_1) (brief_concepts store_2)) = [concept_1]"
    by (simp_all add: embed_brand_def store_2_def batch_1_def concept_1_def concept_2_def
        brand_1_def)
  note t = multi_match_takes_first [where e = ?e and shareId = "''share-A''" and s = share_A
      and s' = share_A and w = store_2]
  note world_b = t [where b = batch_1 and b' = batch_2 and bs = "[]",
      THEN conjunct2, THEN conjunct2, THEN conjunct2, THEN conjunct2, THEN conjunct2,
      THEN conjunct2, THEN conjunct1, rule_format,
      OF conjI [OF store_2_matches(1) conjI [OF entry(1) conjI [OF live(1)
        conjI [OF browser_at_answers(1) browser_at_answers(1)]]]]]
  note world_c = t [where c = concept_1 and c' = concept_2 and cs = "[]",
      THEN conjunct2, THEN conjunct2, THEN conjunct2, THEN conjunct2, THEN conjunct2,
      THEN conjunct2, THEN conjunct2, rule_format,
      OF conjI [OF store_2_matches(2) conjI [OF entry(2) conjI [OF live(1)
        browser_at_answers(1)]]]]
  note resp_b = t [where r = "embed_brand store_2 batch_1" and r' = "embed_brand store_2 batch_2"
      and rs = "[]" and st = SharedBriefPage_mount,
      THEN conjunct2, THEN conjunct2, THEN conjunct2, THEN conjunct2, THEN conjunct1,
      rule_format, OF conjI [OF entry(3) conjI [OF live(1) browser_at_answers(1)]]]
  note resp_c = t [where c = concept_1 and c' = concept_2 and cs = "[]"
      and ct = SharedConceptPage_mount,
      THEN conjunct2, THEN conjunct2, THEN conjunct2, THEN conjunct2, THEN conjunct2,
      THEN conjunct1, rule_format, OF conjI [OF entry(2) live(1)]]
  have v_b: "SharedBriefPage_view (fst (fetchSharedBatch ?e ''share-A'' SharedBriefPage_mount store_2))
       = BriefContent (embed_brand store_2 batch_1) False (Some brand_1) [concept_1]"
    using world_b by (simp add: live(2) page)
  have s_b: "fst (fetchSharedBatch_found ?e ''share-A''
            \<lparr>resp_data = Some [embed_brand store_2 batch_1, embed_brand store_2 batch_2],
             resp_error = None\<rparr> SharedBriefPage_mount store_2)
       = \<lparr>loading = False, error = None, brand = Some brand_1,
          batch = Some (embed_brand store_2 batch_1), concepts = [concept_1],
          isEditable = False\<rparr>"
    using resp_b by (simp add: live(2) page SharedBriefPage_mount_def)
  have s_c: "fst (fetchSharedConcept_found ?e ''share-A''
            \<lparr>resp_data = Some [concept_1, concept_2], resp_error = None\<rparr>
            SharedConceptPage_mount store_2)
       = \<lparr>loading = False, error = None, concept = Some concept_1\<rparr>"
    using resp_c by (simp add: SharedConceptPage_mount_def)
  from store_2_matches v_b world_c s_b s_c show ?thesis
    by (intro conjI)
qed

end
